theory Spec2Isabelle
  imports Main "HOL-Library.AList"
begin

section \<open>Python values\<close>

text \<open>
  Events are Python dicts whose values are what \<^verbatim>\<open>json.loads\<close> and the pollers
  produce. Numbers are kept abstract (the type parameter \<open>'n\<close>): nothing in the code
  computes with them, it only prints them with \<^verbatim>\<open>str\<close>. A dict is an association
  list in insertion order; a lookup finds the first entry of a key, an assignment
  replaces the entry of an existing key in place and appends a new key at the end.
\<close>

datatype 'n pyval =
    PNone
  | PBool bool
  | PNum 'n
  | PStr string
  | PList "'n pyval list"
  | PDict "(string \<times> 'n pyval) list"

type_synonym 'n event = "(string \<times> 'n pyval) list"

definition dict_get :: "(string \<times> 'v) list \<Rightarrow> string \<Rightarrow> 'v \<Rightarrow> 'v" where
  "dict_get d k dflt = (case map_of d k of None \<Rightarrow> dflt | Some v \<Rightarrow> v)"

definition dict_set :: "(string \<times> 'v) list \<Rightarrow> string \<Rightarrow> 'v \<Rightarrow> (string \<times> 'v) list" where
  "dict_set d k v = AList.update k v d"

section \<open>Exceptions\<close>

text \<open>
  An exception is a value: its class and the text \<^verbatim>\<open>str(e)\<close>. A class stands for
  itself and its subclasses, and the classes are told apart as far as an \<^verbatim>\<open>except\<close>
  clause of the code does: \<^verbatim>\<open>JSONDecodeError\<close> is a \<^verbatim>\<open>ValueError\<close>;
  \<open>OtherException\<close> carries the name of any other class derived from
  \<^verbatim>\<open>Exception\<close>; \<open>NotAnException\<close> carries the name of a class derived from
  \<^verbatim>\<open>BaseException\<close> only (\<^verbatim>\<open>KeyboardInterrupt\<close>, \<^verbatim>\<open>SystemExit\<close>,
  \<^verbatim>\<open>GeneratorExit\<close>), which \<^verbatim>\<open>except Exception\<close> does not catch.
\<close>

datatype exn_class =
    CustomerInvocationError
  | PipeInternalError
  | JSONDecodeError
  | ValueError
  | OtherException string
  | NotAnException string

datatype py_exn = Exn exn_class string

fun is_Exception :: "exn_class \<Rightarrow> bool" where
  "is_Exception (NotAnException nm) = False"
| "is_Exception c = True"

text \<open>
  What \<^verbatim>\<open>json.loads\<close> does on a string: it returns a value, or raises
  \<^verbatim>\<open>JSONDecodeError\<close> on text that is not JSON, a plain \<^verbatim>\<open>ValueError\<close> (an
  integer of more than 4300 digits), or another exception, by name
  (\<^verbatim>\<open>RecursionError\<close> on deep nesting, \<^verbatim>\<open>MemoryError\<close>); all of them are
  derived from \<^verbatim>\<open>Exception\<close>.
\<close>

datatype 'n loads_outcome =
    Parsed "'n pyval"
  | RaisesJSONDecodeError string
  | RaisesValueError string
  | RaisesOtherException string string

section \<open>\<^verbatim>\<open>pipe_event_processor.py\<close>: decoding the data field\<close>

text \<open>
  \<^verbatim>\<open>to_str(base64.b64decode(decoded))\<close> is library code: the parameter \<open>b64\<close> gives
  the decoded text of a string, or \<open>None\<close> where \<^verbatim>\<open>b64decode\<close> or the UTF-8
  decoding of \<^verbatim>\<open>to_str\<close> raises. \<^verbatim>\<open>b64decode\<close> raises \<^verbatim>\<open>TypeError\<close> on
  anything that is neither a string nor bytes, which is the second equation.
  \<^verbatim>\<open>json.loads\<close> is the parameter \<open>loads\<close>.
\<close>

fun b64decode_to_str :: "(string \<Rightarrow> string option) \<Rightarrow> 'n pyval \<Rightarrow> string option" where
  "b64decode_to_str b64 (PStr s) = b64 s"
| "b64decode_to_str b64 v = None"

text \<open>
  How the outer \<^verbatim>\<open>try\<close> of \<^verbatim>\<open>_decode_data_field\<close> ends: with an assignment to
  \<^verbatim>\<open>event["data"]\<close> (the parsed JSON before \<^verbatim>\<open>return event\<close>, or the last
  decoded text after the loop), or in the handler \<^verbatim>\<open>except Exception\<close>, which logs and
  leaves the copy as it is.
\<close>

datatype 'n data_outcome = Assign "'n pyval" | PassThrough

text \<open>
  The loop \<^verbatim>\<open>for _ in range(3)\<close> with \<open>n\<close> iterations left. The result is the
  number of calls of \<^verbatim>\<open>b64decode\<close> made and the way the \<^verbatim>\<open>try\<close> ends. An
  exception of the decoder is caught by \<^verbatim>\<open>except Exception: break\<close>; of the parser,
  \<^verbatim>\<open>JSONDecodeError\<close> and \<^verbatim>\<open>ValueError\<close> are caught by the inner handler
  (\<^verbatim>\<open>continue\<close>) and anything else by the outer one.
\<close>

fun decode_loop ::
  "nat \<Rightarrow> (string \<Rightarrow> string option) \<Rightarrow> (string \<Rightarrow> 'n loads_outcome) \<Rightarrow> 'n pyval
     \<Rightarrow> nat \<times> 'n data_outcome"
where
  "decode_loop 0 b64 loads decoded = (0, Assign decoded)"
| "decode_loop (Suc n) b64 loads decoded =
     (case b64decode_to_str b64 decoded of
        None \<Rightarrow> (1, Assign decoded)
      | Some s \<Rightarrow>
          (case loads s of
             Parsed v \<Rightarrow> (1, Assign v)
           | RaisesJSONDecodeError m \<Rightarrow>
               (let (k, d) = decode_loop n b64 loads (PStr s) in (Suc k, d))
           | RaisesValueError m \<Rightarrow>
               (let (k, d) = decode_loop n b64 loads (PStr s) in (Suc k, d))
           | RaisesOtherException c m \<Rightarrow> (1, PassThrough)))"

definition decode_data_field ::
  "(string \<Rightarrow> string option) \<Rightarrow> (string \<Rightarrow> 'n loads_outcome) \<Rightarrow> 'n event \<Rightarrow> 'n event"
where
  "decode_data_field b64 loads event =
     (case map_of event ''data'' of
        None \<Rightarrow> event
      | Some raw \<Rightarrow>
          (case snd (decode_loop 3 b64 loads raw) of
             Assign d \<Rightarrow> dict_set event ''data'' d
           | PassThrough \<Rightarrow> event))"

lemma dict_set_same: "map_of d k = Some v \<Longrightarrow> dict_set d k v = d"
  unfolding dict_set_def by (induction d) auto

text \<open>
  C8. A record whose \<open>data\<close> field is already an object is returned structurally equal
  (every field, \<open>data\<close> included, as it was), whatever the two library functions do;
  decoding the result again therefore gives the same record.
\<close>

theorem decode_data_field_idempotent_on_object:
  assumes "map_of event ''data'' = Some (PDict obj)"
  shows "decode_data_field b64 loads event = event
       \<and> decode_data_field b64 loads (decode_data_field b64 loads event)
           = decode_data_field b64 loads event"
proof -
  have "decode_loop 3 b64 loads (PDict obj) = (1, Assign (PDict obj))"
    by (simp add: numeral_3_eq_3)
  with assms have "decode_data_field b64 loads event = event"
    by (simp add: decode_data_field_def dict_set_same)
  then show ?thesis by simp
qed

theorem decode_data_field_idempotent_on_object_witness:
  "map_of [(''id'', PStr ''1''), (''data'', PDict [(''k'', PNum (1::int))])] ''data''
     = Some (PDict [(''k'', PNum 1)])
   \<and> decode_data_field (\<lambda>s. Some s) (\<lambda>s. Parsed (PStr s))
        [(''id'', PStr ''1''), (''data'', PDict [(''k'', PNum (1::int))])]
     = [(''id'', PStr ''1''), (''data'', PDict [(''k'', PNum 1)])]"
  using decode_data_field_idempotent_on_object
    [of "[(''id'', PStr ''1''), (''data'', PDict [(''k'', PNum (1::int))])]"
        "[(''k'', PNum 1)]" "\<lambda>s. Some s" "\<lambda>s. Parsed (PStr s)"]
  by simp

subsection \<open>The rounds of decoding, as the specification counts them\<close>

text \<open>
  \<open>b64_rounds k b64 raw\<close> is the value after \<open>k\<close> successive successful rounds of
  base64-decoding of \<open>raw\<close> (\<open>None\<close> when one of them fails), and
  \<open>round_outcome k\<close> what the JSON parse attempted on the text of round \<open>k\<close> does
  (\<open>None\<close> when the round is not reached). A round fails to parse when it is not
  reached or its parse raises a decode error, \<^verbatim>\<open>JSONDecodeError\<close> or
  \<^verbatim>\<open>ValueError\<close>.
\<close>

fun b64_rounds :: "nat \<Rightarrow> (string \<Rightarrow> string option) \<Rightarrow> 'n pyval \<Rightarrow> 'n pyval option" where
  "b64_rounds 0 b64 v = Some v"
| "b64_rounds (Suc k) b64 v =
     (case b64decode_to_str b64 v of None \<Rightarrow> None | Some s \<Rightarrow> b64_rounds k b64 (PStr s))"

definition round_outcome ::
  "nat \<Rightarrow> (string \<Rightarrow> string option) \<Rightarrow> (string \<Rightarrow> 'n loads_outcome) \<Rightarrow> 'n pyval
     \<Rightarrow> 'n loads_outcome option"
where
  "round_outcome k b64 loads raw =
     (case b64_rounds k b64 raw of Some (PStr s) \<Rightarrow> Some (loads s) | _ \<Rightarrow> None)"

fun is_decode_error :: "'n loads_outcome \<Rightarrow> bool" where
  "is_decode_error (RaisesJSONDecodeError m) = True"
| "is_decode_error (RaisesValueError m) = True"
| "is_decode_error outcome = False"

definition round_fails ::
  "nat \<Rightarrow> (string \<Rightarrow> string option) \<Rightarrow> (string \<Rightarrow> 'n loads_outcome) \<Rightarrow> 'n pyval \<Rightarrow> bool"
where
  "round_fails k b64 loads raw =
     (case round_outcome k b64 loads raw of None \<Rightarrow> True | Some outcome \<Rightarrow> is_decode_error outcome)"

lemma round_outcome_Suc:
  "b64decode_to_str b64 v = Some s \<Longrightarrow>
   round_outcome (Suc k) b64 loads v = round_outcome k b64 loads (PStr s)"
  by (simp add: round_outcome_def)

lemma round_outcome_1:
  "b64decode_to_str b64 v = Some s \<Longrightarrow> round_outcome (Suc 0) b64 loads v = Some (loads s)"
  by (simp add: round_outcome_def)

lemma round_fails_Suc:
  "b64decode_to_str b64 v = Some s \<Longrightarrow>
   round_fails (Suc k) b64 loads v = round_fails k b64 loads (PStr s)"
  by (simp add: round_fails_def round_outcome_Suc)

lemma round_fails_1:
  "b64decode_to_str b64 v = Some s \<Longrightarrow> round_fails (Suc 0) b64 loads v = is_decode_error (loads s)"
  by (simp add: round_fails_def round_outcome_1)

lemma b64_rounds_Suc:
  "b64decode_to_str b64 v = Some s \<Longrightarrow> b64_rounds (Suc k) b64 v = b64_rounds k b64 (PStr s)"
  by simp

lemma decode_loop_continue:
  "b64decode_to_str b64 decoded = Some s \<Longrightarrow> is_decode_error (loads s) \<Longrightarrow>
   snd (decode_loop (Suc n) b64 loads decoded) = snd (decode_loop n b64 loads (PStr s))"
  by (cases "loads s") (simp_all add: split_beta)

lemma decode_loop_rounds_le: "fst (decode_loop n b64 loads decoded) \<le> n"
proof (induction n arbitrary: decoded)
  case 0
  then show ?case by simp
next
  case (Suc n)
  have "fst (decode_loop n b64 loads (PStr s)) \<le> n" for s by (rule Suc.IH)
  then show ?case by (auto simp: split_beta split: option.splits loads_outcome.splits)
qed

lemma decode_loop_at_round:
  fixes decoded :: "'n pyval"
  assumes "1 \<le> k" "k \<le> n" "round_outcome k b64 loads decoded = Some outcome"
    and "\<not> is_decode_error outcome"
    and "\<forall>j. 1 \<le> j \<and> j < k \<longrightarrow> round_fails j b64 loads decoded"
  shows "snd (decode_loop n b64 loads decoded)
           = (case outcome of Parsed v \<Rightarrow> Assign v | _ \<Rightarrow> PassThrough)"
  using assms
proof (induction n arbitrary: decoded k)
  case 0
  then show ?case by simp
next
  case (Suc n)
  from Suc.prems(1) obtain k' where k: "k = Suc k'" by (cases k) auto
  from Suc.prems(3) k obtain s1 where s1: "b64decode_to_str b64 decoded = Some s1"
    by (auto simp: round_outcome_def split: option.splits)
  show ?case
  proof (cases "k' = 0")
    case True
    with Suc.prems(3) k s1 have "loads s1 = outcome" by (simp add: round_outcome_def)
    with s1 Suc.prems(4) show ?thesis by (cases outcome) simp_all
  next
    case False
    then have "1 \<le> (1::nat) \<and> 1 < k" using k by simp
    with Suc.prems(5) have "round_fails 1 b64 loads decoded" by blast
    with s1 have de: "is_decode_error (loads s1)" by (simp add: round_fails_1)
    have a: "1 \<le> k'" using False by simp
    have b: "k' \<le> n" using Suc.prems(2) k by simp
    have c: "round_outcome k' b64 loads (PStr s1 :: 'n pyval) = Some outcome"
      using Suc.prems(3) k s1 by (simp add: round_outcome_Suc)
    have d: "\<forall>j. 1 \<le> j \<and> j < k' \<longrightarrow> round_fails j b64 loads (PStr s1 :: 'n pyval)"
    proof (intro allI impI)
      fix j assume "1 \<le> j \<and> j < k'"
      then have "1 \<le> Suc j \<and> Suc j < k" using k by simp
      with Suc.prems(5) have "round_fails (Suc j) b64 loads decoded" by blast
      with s1 show "round_fails j b64 loads (PStr s1 :: 'n pyval)" by (simp add: round_fails_Suc)
    qed
    from Suc.IH[OF a b c Suc.prems(4) d] decode_loop_continue[where loads=loads and n=n, OF s1 de]
    show ?thesis by simp
  qed
qed

lemma decode_loop_no_parse:
  fixes decoded :: "'n pyval"
  assumes "\<forall>k. 1 \<le> k \<and> k \<le> n \<longrightarrow> round_fails k b64 loads decoded"
    and "m \<le> n" "b64_rounds m b64 decoded = Some d"
    and "m = n \<or> b64_rounds (Suc m) b64 decoded = None"
  shows "snd (decode_loop n b64 loads decoded) = Assign d"
  using assms
proof (induction n arbitrary: decoded m)
  case 0
  then show ?case by simp
next
  case (Suc n)
  show ?case
  proof (cases "b64decode_to_str b64 decoded")
    case None
    with Suc.prems(3) have "m = 0" by (cases m) auto
    with Suc.prems(3) None show ?thesis by simp
  next
    case (Some s1)
    have "1 \<le> (1::nat) \<and> 1 \<le> Suc n" by simp
    with Suc.prems(1) have "round_fails 1 b64 loads decoded" by blast
    with Some have de: "is_decode_error (loads s1)" by (simp add: round_fails_1)
    from Suc.prems(4) Some have "m \<noteq> 0" by (cases m) auto
    then obtain m' where m: "m = Suc m'" by (cases m) auto
    have a: "\<forall>k. 1 \<le> k \<and> k \<le> n \<longrightarrow> round_fails k b64 loads (PStr s1 :: 'n pyval)"
    proof (intro allI impI)
      fix k assume "1 \<le> k \<and> k \<le> n"
      then have "1 \<le> Suc k \<and> Suc k \<le> Suc n" by simp
      with Suc.prems(1) have "round_fails (Suc k) b64 loads decoded" by blast
      with Some show "round_fails k b64 loads (PStr s1 :: 'n pyval)" by (simp add: round_fails_Suc)
    qed
    have b: "m' \<le> n" using Suc.prems(2) m by simp
    have c: "b64_rounds m' b64 (PStr s1 :: 'n pyval) = Some d" using Suc.prems(3) m Some by simp
    have "b64_rounds (Suc m) b64 decoded = b64_rounds m b64 (PStr s1 :: 'n pyval)"
      using Some by (rule b64_rounds_Suc)
    with Suc.prems(4) m have d: "m' = n \<or> b64_rounds (Suc m') b64 (PStr s1 :: 'n pyval) = None"
      by (simp del: b64_rounds.simps)
    from Suc.IH[OF a b c d] decode_loop_continue[where loads=loads and n=n, OF Some de] show ?thesis by simp
  qed
qed

text \<open>
  C2, as stated, fails where a parse raises something other than a decode error. The
  \<open>data\<close> field is the base64 text of 100000 opening brackets. Round 1 decodes it,
  and \<^verbatim>\<open>json.loads\<close> raises \<^verbatim>\<open>RecursionError\<close> on the brackets, which passes
  the inner handler; the outer one returns the record with \<open>data\<close> as it was. No
  round yields a JSON parse (the brackets decode to the empty text, and so does the
  empty text), and the last successful decode gave the empty text, which is what the
  claim says \<open>data\<close> becomes.
\<close>

theorem decode_data_field_recursion_error_counterexample:
  "round_outcome 1
       (\<lambda>s. if s = concat (replicate 33333 ''W1tb'') @ ''Ww=='' then Some (replicate 100000 (CHR ''[''))
             else if s = replicate 100000 (CHR ''['') \<or> s = [] then Some [] else None)
       (\<lambda>s. if s = replicate 100000 (CHR ''['')
             then RaisesOtherException ''RecursionError''
                    ''maximum recursion depth exceeded while decoding a JSON array from a unicode string''
             else RaisesJSONDecodeError ''Expecting value'')
       (PStr (concat (replicate 33333 ''W1tb'') @ ''Ww=='') :: int pyval)
     = Some (RaisesOtherException ''RecursionError''
               ''maximum recursion depth exceeded while decoding a JSON array from a unicode string'')
   \<and> round_outcome 2
       (\<lambda>s. if s = concat (replicate 33333 ''W1tb'') @ ''Ww=='' then Some (replicate 100000 (CHR ''[''))
             else if s = replicate 100000 (CHR ''['') \<or> s = [] then Some [] else None)
       (\<lambda>s. if s = replicate 100000 (CHR ''['')
             then RaisesOtherException ''RecursionError''
                    ''maximum recursion depth exceeded while decoding a JSON array from a unicode string''
             else RaisesJSONDecodeError ''Expecting value'')
       (PStr (concat (replicate 33333 ''W1tb'') @ ''Ww=='') :: int pyval)
     = Some (RaisesJSONDecodeError ''Expecting value'')
   \<and> round_outcome 3
       (\<lambda>s. if s = concat (replicate 33333 ''W1tb'') @ ''Ww=='' then Some (replicate 100000 (CHR ''[''))
             else if s = replicate 100000 (CHR ''['') \<or> s = [] then Some [] else None)
       (\<lambda>s. if s = replicate 100000 (CHR ''['')
             then RaisesOtherException ''RecursionError''
                    ''maximum recursion depth exceeded while decoding a JSON array from a unicode string''
             else RaisesJSONDecodeError ''Expecting value'')
       (PStr (concat (replicate 33333 ''W1tb'') @ ''Ww=='') :: int pyval)
     = Some (RaisesJSONDecodeError ''Expecting value'')
   \<and> b64_rounds 3
       (\<lambda>s. if s = concat (replicate 33333 ''W1tb'') @ ''Ww=='' then Some (replicate 100000 (CHR ''[''))
             else if s = replicate 100000 (CHR ''['') \<or> s = [] then Some [] else None)
       (PStr (concat (replicate 33333 ''W1tb'') @ ''Ww=='') :: int pyval)
     = Some (PStr [])
   \<and> decode_data_field
       (\<lambda>s. if s = concat (replicate 33333 ''W1tb'') @ ''Ww=='' then Some (replicate 100000 (CHR ''[''))
             else if s = replicate 100000 (CHR ''['') \<or> s = [] then Some [] else None)
       (\<lambda>s. if s = replicate 100000 (CHR ''['')
             then RaisesOtherException ''RecursionError''
                    ''maximum recursion depth exceeded while decoding a JSON array from a unicode string''
             else RaisesJSONDecodeError ''Expecting value'')
       [(''data'', PStr (concat (replicate 33333 ''W1tb'') @ ''Ww=='')), (''id'', PNum (7::int))]
     = [(''data'', PStr (concat (replicate 33333 ''W1tb'') @ ''Ww=='')), (''id'', PNum 7)]
   \<and> decode_data_field
       (\<lambda>s. if s = concat (replicate 33333 ''W1tb'') @ ''Ww=='' then Some (replicate 100000 (CHR ''[''))
             else if s = replicate 100000 (CHR ''['') \<or> s = [] then Some [] else None)
       (\<lambda>s. if s = replicate 100000 (CHR ''['')
             then RaisesOtherException ''RecursionError''
                    ''maximum recursion depth exceeded while decoding a JSON array from a unicode string''
             else RaisesJSONDecodeError ''Expecting value'')
       [(''data'', PStr (concat (replicate 33333 ''W1tb'') @ ''Ww=='')), (''id'', PNum (7::int))]
     \<noteq> [(''data'', PStr []), (''id'', PNum 7)]"
proof -
  let ?B = "concat (replicate 33333 ''W1tb'') @ ''Ww==''"
  let ?L = "replicate 100000 (CHR ''['')"
  have ne: "?B \<noteq> ?L"
  proof
    assume "?B = ?L"
    then have "length ?B = length ?L" by (rule arg_cong)
    then show False by (simp add: length_concat sum_list_replicate)
  qed
  note d = ne ne[symmetric]
  show ?thesis
    by (simp add: round_outcome_def decode_data_field_def numeral_2_eq_2 numeral_3_eq_3 d)
qed

text \<open>
  C2, amended. A record without a \<open>data\<close> field is returned unchanged. Otherwise at
  most three calls of the base64 decoder are made and the result is the record with
  at most its \<open>data\<close> field reassigned: to the value parsed after round \<open>k\<close>, for the
  first round \<open>k \<le> 3\<close> whose text parses as JSON when every round before it failed
  with a decode error (\<^verbatim>\<open>JSONDecodeError\<close> or \<^verbatim>\<open>ValueError\<close>); when every round
  up to the third is not reached or fails with a decode error, to the text of the last
  successful round \<open>m\<close> (the round after it failed, or \<open>m = 3\<close>), which for
  \<open>m = 0\<close> is the original value; and when the parse of a round \<open>k \<le> 3\<close> raises
  any other exception, every round before it having failed with a decode error, the
  record is returned as it was, \<open>data\<close> included.
\<close>

theorem decode_data_field_three_rounds:
  "(map_of event ''data'' = None \<longrightarrow> decode_data_field b64 loads event = event)
   \<and> (\<forall>raw. map_of event ''data'' = Some raw \<longrightarrow>
        fst (decode_loop 3 b64 loads raw) \<le> 3
        \<and> (\<forall>k v. 1 \<le> k \<and> k \<le> 3 \<and> round_outcome k b64 loads raw = Some (Parsed v)
                 \<and> (\<forall>j. 1 \<le> j \<and> j < k \<longrightarrow> round_fails j b64 loads raw)
               \<longrightarrow> decode_data_field b64 loads event = dict_set event ''data'' v)
        \<and> ((\<forall>k. 1 \<le> k \<and> k \<le> 3 \<longrightarrow> round_fails k b64 loads raw)
             \<longrightarrow> (\<forall>m x. m \<le> 3 \<and> b64_rounds m b64 raw = Some x
                        \<and> (m = 3 \<or> b64_rounds (Suc m) b64 raw = None)
                      \<longrightarrow> decode_data_field b64 loads event = dict_set event ''data'' x))
        \<and> (\<forall>k c msg. 1 \<le> k \<and> k \<le> 3
                 \<and> round_outcome k b64 loads raw = Some (RaisesOtherException c msg)
                 \<and> (\<forall>j. 1 \<le> j \<and> j < k \<longrightarrow> round_fails j b64 loads raw)
               \<longrightarrow> decode_data_field b64 loads event = event))"
proof (intro conjI allI impI)
  assume "map_of event ''data'' = None"
  then show "decode_data_field b64 loads event = event"
    by (simp add: decode_data_field_def)
next
  fix raw :: "'a pyval"
  show "fst (decode_loop 3 b64 loads raw) \<le> 3" by (rule decode_loop_rounds_le)
next
  fix raw k v
  assume raw: "map_of event ''data'' = Some raw"
    and "1 \<le> k \<and> k \<le> 3 \<and> round_outcome k b64 loads raw = Some (Parsed v)
          \<and> (\<forall>j. 1 \<le> j \<and> j < k \<longrightarrow> round_fails j b64 loads raw)"
  then have "snd (decode_loop 3 b64 loads raw)
               = (case Parsed v of Parsed v \<Rightarrow> Assign v | _ \<Rightarrow> PassThrough)"
    by (intro decode_loop_at_round[of k 3 b64 loads raw "Parsed v"]) simp_all
  with raw show "decode_data_field b64 loads event = dict_set event ''data'' v"
    by (simp add: decode_data_field_def)
next
  fix raw m x
  assume raw: "map_of event ''data'' = Some raw"
    and "\<forall>k. 1 \<le> k \<and> k \<le> 3 \<longrightarrow> round_fails k b64 loads raw"
    and "m \<le> 3 \<and> b64_rounds m b64 raw = Some x
          \<and> (m = 3 \<or> b64_rounds (Suc m) b64 raw = None)"
  then have "snd (decode_loop 3 b64 loads raw) = Assign x"
    by (intro decode_loop_no_parse[of 3 b64 loads raw m x]) simp_all
  with raw show "decode_data_field b64 loads event = dict_set event ''data'' x"
    by (simp add: decode_data_field_def)
next
  fix raw k c msg
  assume raw: "map_of event ''data'' = Some raw"
    and "1 \<le> k \<and> k \<le> 3 \<and> round_outcome k b64 loads raw = Some (RaisesOtherException c msg)
          \<and> (\<forall>j. 1 \<le> j \<and> j < k \<longrightarrow> round_fails j b64 loads raw)"
  then have "snd (decode_loop 3 b64 loads raw)
               = (case RaisesOtherException c msg of Parsed v \<Rightarrow> Assign v | _ \<Rightarrow> PassThrough)"
    by (intro decode_loop_at_round[of k 3 b64 loads raw "RaisesOtherException c msg"]) simp_all
  with raw show "decode_data_field b64 loads event = event"
    by (simp add: decode_data_field_def)
qed

theorem decode_data_field_three_rounds_witness:
  "map_of [(''data'', PStr ''ZTMwPQ==''), (''id'', PNum (7::int))] ''data'' = Some (PStr ''ZTMwPQ=='')
   \<and> round_outcome 1
        (\<lambda>s. if s = ''ZTMwPQ=='' then Some ''e30='' else if s = ''e30='' then Some ''{}'' else None)
        (\<lambda>s. if s = ''{}'' then Parsed (PDict []) else RaisesJSONDecodeError ''Expecting value'')
        (PStr ''ZTMwPQ=='' :: int pyval) = Some (RaisesJSONDecodeError ''Expecting value'')
   \<and> round_outcome 2
        (\<lambda>s. if s = ''ZTMwPQ=='' then Some ''e30='' else if s = ''e30='' then Some ''{}'' else None)
        (\<lambda>s. if s = ''{}'' then Parsed (PDict []) else RaisesJSONDecodeError ''Expecting value'')
        (PStr ''ZTMwPQ=='' :: int pyval) = Some (Parsed (PDict []))
   \<and> decode_data_field
        (\<lambda>s. if s = ''ZTMwPQ=='' then Some ''e30='' else if s = ''e30='' then Some ''{}'' else None)
        (\<lambda>s. if s = ''{}'' then Parsed (PDict []) else RaisesJSONDecodeError ''Expecting value'')
        [(''data'', PStr ''ZTMwPQ==''), (''id'', PNum (7::int))]
     = [(''data'', PDict []), (''id'', PNum 7)]"
proof -
  let ?b64 = "\<lambda>s. if s = ''ZTMwPQ=='' then Some ''e30='' else if s = ''e30='' then Some ''{}'' else None"
  let ?loads = "\<lambda>s. if s = ''{}'' then Parsed (PDict []) :: int loads_outcome
                     else RaisesJSONDecodeError ''Expecting value''"
  let ?ev = "[(''data'', PStr ''ZTMwPQ==''), (''id'', PNum (7::int))]"
  let ?raw = "PStr ''ZTMwPQ=='' :: int pyval"
  have h: "map_of ?ev ''data'' = Some ?raw" by simp
  have r1: "round_outcome 1 ?b64 ?loads ?raw = Some (RaisesJSONDecodeError ''Expecting value'')"
    by (simp add: round_outcome_def)
  have r2: "round_outcome 2 ?b64 ?loads ?raw = Some (Parsed (PDict []))"
    by (simp add: round_outcome_def numeral_2_eq_2)
  have first: "\<forall>j. 1 \<le> j \<and> j < (2::nat) \<longrightarrow> round_fails j ?b64 ?loads ?raw"
  proof (intro allI impI)
    fix j :: nat assume "1 \<le> j \<and> j < 2"
    then have "j = 1" by simp
    with r1 show "round_fails j ?b64 ?loads ?raw" by (simp add: round_fails_def)
  qed
  have p: "\<forall>k v. 1 \<le> k \<and> k \<le> 3 \<and> round_outcome k ?b64 ?loads ?raw = Some (Parsed v)
                 \<and> (\<forall>j. 1 \<le> j \<and> j < k \<longrightarrow> round_fails j ?b64 ?loads ?raw)
               \<longrightarrow> decode_data_field ?b64 ?loads ?ev = dict_set ?ev ''data'' v"
    by (rule decode_data_field_three_rounds[of ?ev ?b64 ?loads, THEN conjunct2, rule_format, OF h,
        THEN conjunct2, THEN conjunct1])
  have "(1::nat) \<le> 2 \<and> (2::nat) \<le> 3 \<and> round_outcome 2 ?b64 ?loads ?raw = Some (Parsed (PDict []))
          \<and> (\<forall>j. 1 \<le> j \<and> j < (2::nat) \<longrightarrow> round_fails j ?b64 ?loads ?raw)"
    using r2 first by simp
  with p have "decode_data_field ?b64 ?loads ?ev = dict_set ?ev ''data'' (PDict [])"
    by (elim allE[of _ 2] allE[of _ "PDict []"] impE) assumption+
  then have res: "decode_data_field ?b64 ?loads ?ev = [(''data'', PDict []), (''id'', PNum 7)]"
    by (simp add: dict_set_def)
  show ?thesis by (rule conjI[OF h conjI[OF r1 conjI[OF r2 res]]])
qed

section \<open>\<^verbatim>\<open>pipe_event_processor.py\<close>: processing a batch\<close>

text \<open>
  The event dicts are objects that the caller, the processor and the target share, so
  they live in a store: an address is an index of the list, \<^verbatim>\<open>dict(event)\<close>
  allocates a new object at the end, and an assignment to a key updates the object at its
  address. The values inside a dict are never assigned to by this code and stay plain
  values.
\<close>

type_synonym 'n heap = "'n event list"

definition decode_data_field_h ::
  "(string \<Rightarrow> string option) \<Rightarrow> (string \<Rightarrow> 'n loads_outcome) \<Rightarrow> 'n heap \<Rightarrow> nat \<Rightarrow> 'n heap \<times> nat"
where
  "decode_data_field_h b64 loads h a =
     (case map_of (h ! a) ''data'' of
        None \<Rightarrow> (h, a)
      | Some raw \<Rightarrow>
          (let a' = length h;
               h1 = h @ [h ! a]
           in (case snd (decode_loop 3 b64 loads raw) of
                 Assign d \<Rightarrow> (h1[a' := dict_set (h1 ! a') ''data'' d], a')
               | PassThrough \<Rightarrow> (h1, a'))))"

text \<open>The comprehension \<^verbatim>\<open>[_decode_data_field(e) for e in input_events]\<close>.\<close>

fun decode_all ::
  "(string \<Rightarrow> string option) \<Rightarrow> (string \<Rightarrow> 'n loads_outcome) \<Rightarrow> 'n heap \<Rightarrow> nat list \<Rightarrow> 'n heap \<times> nat list"
where
  "decode_all b64 loads h [] = (h, [])"
| "decode_all b64 loads h (a # as) =
     (let (h1, a') = decode_data_field_h b64 loads h a;
          (h2, as') = decode_all b64 loads h1 as
      in (h2, a' # as'))"

text \<open>
  The comprehension over \<^verbatim>\<open>self.input_transformer.transform\<close>: the first exception
  ends it.
\<close>

fun transform_all :: "('e \<Rightarrow> py_exn + 'v) \<Rightarrow> 'e list \<Rightarrow> py_exn + 'v list" where
  "transform_all f [] = Inr []"
| "transform_all f (e # es) =
     (case f e of
        Inl x \<Rightarrow> Inl x
      | Inr v \<Rightarrow> (case transform_all f es of Inl x \<Rightarrow> Inl x | Inr vs \<Rightarrow> Inr (v # vs)))"

text \<open>
  The body of the \<^verbatim>\<open>try\<close>. The transformer is the optional attribute of the
  processor; it and \<^verbatim>\<open>target.send\<close> are given the values of the decoded events and
  may raise. The three targets of this repository only serialise the events they are given
  (\<^verbatim>\<open>to_json_str(event)\<close>), which is why \<open>send\<close> takes values.
\<close>

definition try_body ::
  "('n event \<Rightarrow> py_exn + 'n pyval) option \<Rightarrow> ('n pyval list \<Rightarrow> py_exn + unit) \<Rightarrow>
   (string \<Rightarrow> string option) \<Rightarrow> (string \<Rightarrow> 'n loads_outcome) \<Rightarrow>
   'n heap \<Rightarrow> nat list \<Rightarrow> 'n heap \<times> (py_exn + unit)"
where
  "try_body input_transformer send b64 loads h input_events =
     (let (h', events) = decode_all b64 loads h input_events;
          transformed =
            (case input_transformer of
               Some transform \<Rightarrow> transform_all (\<lambda>a. transform (h' ! a)) events
             | None \<Rightarrow> Inr (map (\<lambda>a. PDict (h' ! a)) events))
      in (h', case transformed of Inl x \<Rightarrow> Inl x | Inr evs \<Rightarrow> send evs))"

text \<open>
  The two \<^verbatim>\<open>except\<close> clauses, in the order of the source: the first re-raises, the
  second, \<^verbatim>\<open>except Exception\<close>, raises \<^verbatim>\<open>PipeInternalError(str(e))\<close>; an
  exception that neither clause matches leaves the method as it is.
\<close>

fun except_clauses :: "py_exn + unit \<Rightarrow> py_exn + unit" where
  "except_clauses (Inr u) = Inr u"
| "except_clauses (Inl (Exn c m)) =
     (if c = CustomerInvocationError then Inl (Exn c m)
      else if is_Exception c then Inl (Exn PipeInternalError m)
      else Inl (Exn c m))"

definition process_events_batch ::
  "('n event \<Rightarrow> py_exn + 'n pyval) option \<Rightarrow> ('n pyval list \<Rightarrow> py_exn + unit) \<Rightarrow>
   (string \<Rightarrow> string option) \<Rightarrow> (string \<Rightarrow> 'n loads_outcome) \<Rightarrow>
   'n heap \<Rightarrow> nat list \<Rightarrow> 'n heap \<times> (py_exn + unit)"
where
  "process_events_batch input_transformer send b64 loads h input_events =
     (let (h', r) = try_body input_transformer send b64 loads h input_events
      in (h', except_clauses r))"

lemma decode_data_field_h_frame:
  assumes "decode_data_field_h b64 loads h a = (h', a')" "a < length h"
  shows "length h \<le> length h' \<and> take (length h) h' = h \<and> a' < length h'
         \<and> h' ! a' = decode_data_field b64 loads (h ! a)"
  using assms
  by (auto simp: decode_data_field_h_def decode_data_field_def Let_def nth_append
           split: option.splits data_outcome.splits)

lemma decode_all_frame:
  assumes "decode_all b64 loads h as = (h', as')" "\<forall>a\<in>set as. a < length h"
  shows "length h \<le> length h' \<and> take (length h) h' = h
         \<and> (\<forall>a\<in>set as'. a < length h')
         \<and> map (\<lambda>a. h' ! a) as' = map (\<lambda>a. decode_data_field b64 loads (h ! a)) as"
  using assms
proof (induction as arbitrary: h h' as')
  case Nil
  then show ?case by simp
next
  case (Cons a as)
  obtain h1 a1 where s1: "decode_data_field_h b64 loads h a = (h1, a1)"
    by (cases "decode_data_field_h b64 loads h a")
  obtain h2 as2 where s2: "decode_all b64 loads h1 as = (h2, as2)"
    by (cases "decode_all b64 loads h1 as")
  from Cons.prems(1) s1 s2 have eq: "h' = h2" "as' = a1 # as2" by simp_all
  from Cons.prems(2) have a: "a < length h" by simp
  from decode_data_field_h_frame[OF s1 a]
  have f1: "length h \<le> length h1" "take (length h) h1 = h" "a1 < length h1"
    "h1 ! a1 = decode_data_field b64 loads (h ! a)" by simp_all
  from Cons.prems(2) f1(1) have v: "\<forall>a\<in>set as. a < length h1" by auto
  from Cons.IH[OF s2 v]
  have f2: "length h1 \<le> length h2" "take (length h1) h2 = h1" "\<forall>a\<in>set as2. a < length h2"
    "map (\<lambda>a. h2 ! a) as2 = map (\<lambda>a. decode_data_field b64 loads (h1 ! a)) as" by simp_all
  have pre1: "i < length h1 \<Longrightarrow> h2 ! i = h1 ! i" for i
    using f2(2) by (metis nth_take)
  have pre0: "i < length h \<Longrightarrow> h1 ! i = h ! i" for i
    using f1(2) by (metis nth_take)
  have t: "take (length h) h2 = h"
  proof -
    have "take (length h) h2 = take (length h) (take (length h1) h2)"
      using f1(1) by (simp add: min_def)
    then show ?thesis using f2(2) f1(2) by simp
  qed
  have m: "map (\<lambda>a. decode_data_field b64 loads (h1 ! a)) as
           = map (\<lambda>a. decode_data_field b64 loads (h ! a)) as"
    using Cons.prems(2) pre0 by simp
  show ?case
    unfolding eq using f1 f2 t m pre1[OF f1(3)] by auto
qed


lemma transform_all_Inl:
  "transform_all f es = Inl x \<Longrightarrow> \<exists>e\<in>set es. f e = Inl x"
  by (induction es) (auto split: sum.splits)

lemma except_clauses_cases:
  "except_clauses r = Inr ()
   \<or> (\<exists>m. r = Inl (Exn CustomerInvocationError m) \<and> except_clauses r = r)
   \<or> (\<exists>c m. c \<noteq> CustomerInvocationError \<and> is_Exception c \<and> r = Inl (Exn c m)
          \<and> except_clauses r = Inl (Exn PipeInternalError m))
   \<or> (\<exists>c m. \<not> is_Exception c \<and> r = Inl (Exn c m) \<and> except_clauses r = r)"
  by (cases r rule: except_clauses.cases) auto

lemma snd_process_events_batch:
  "snd (process_events_batch tr send b64 loads h evs)
     = except_clauses (snd (try_body tr send b64 loads h evs))"
  by (simp add: process_events_batch_def split_beta)

lemma fst_process_events_batch:
  "fst (process_events_batch tr send b64 loads h evs) = fst (decode_all b64 loads h evs)"
  by (simp add: process_events_batch_def try_body_def split_beta)

lemma try_body_origin:
  assumes "snd (try_body tr send b64 loads h evs) = Inl e"
  shows "(\<exists>f ev. tr = Some f \<and> f ev = Inl e) \<or> (\<exists>vs. send vs = Inl e)"
proof (cases tr)
  case None
  with assms show ?thesis by (auto simp: try_body_def split_beta)
next
  case (Some f)
  show ?thesis
  proof (cases "transform_all (\<lambda>a. f (fst (decode_all b64 loads h evs) ! a))
                  (snd (decode_all b64 loads h evs))")
    case (Inl x)
    with assms Some have "x = e" by (simp add: try_body_def split_beta)
    with Inl transform_all_Inl[OF Inl] Some show ?thesis by blast
  next
    case (Inr vs)
    with assms Some have "send vs = Inl e" by (simp add: try_body_def split_beta)
    then show ?thesis by blast
  qed
qed

text \<open>
  C3, as stated, fails for an exception that is not derived from \<^verbatim>\<open>Exception\<close>:
  \<^verbatim>\<open>except Exception\<close> does not catch a \<^verbatim>\<open>KeyboardInterrupt\<close> (or a
  \<^verbatim>\<open>SystemExit\<close>) raised in \<^verbatim>\<open>target.send\<close>, so it leaves
  \<open>process_events_batch\<close> as it is, neither a \<^verbatim>\<open>CustomerInvocationError\<close> nor
  wrapped into a \<^verbatim>\<open>PipeInternalError\<close>.
\<close>

theorem process_events_batch_keyboard_interrupt_counterexample:
  "snd (process_events_batch None (\<lambda>vs. Inl (Exn (NotAnException ''KeyboardInterrupt'') []))
          (\<lambda>s. None) (\<lambda>s. RaisesJSONDecodeError ''Expecting value'')
          [[(''k'', PNum (1::int))]] [0])
     = Inl (Exn (NotAnException ''KeyboardInterrupt'') [])
   \<and> NotAnException ''KeyboardInterrupt'' \<noteq> CustomerInvocationError
   \<and> NotAnException ''KeyboardInterrupt'' \<noteq> PipeInternalError"
  by (simp add: process_events_batch_def try_body_def decode_data_field_h_def)

text \<open>
  C3, amended. When the body of the \<^verbatim>\<open>try\<close> completes, so does
  \<open>process_events_batch\<close>; a \<^verbatim>\<open>CustomerInvocationError\<close> raised in it is raised
  unchanged; any other exception derived from \<^verbatim>\<open>Exception\<close> is replaced by a
  \<^verbatim>\<open>PipeInternalError\<close> with the same message; an exception not derived from
  \<^verbatim>\<open>Exception\<close> leaves the method unchanged; nothing else leaves the method; and
  an exception of the body comes from the transformer on some event or from
  \<^verbatim>\<open>target.send\<close> (decoding catches its own).
\<close>

theorem process_events_batch_error_classification:
  "(snd (try_body tr send b64 loads h evs) = Inr ()
      \<longrightarrow> snd (process_events_batch tr send b64 loads h evs) = Inr ())
   \<and> (\<forall>m. snd (try_body tr send b64 loads h evs) = Inl (Exn CustomerInvocationError m)
      \<longrightarrow> snd (process_events_batch tr send b64 loads h evs) = Inl (Exn CustomerInvocationError m))
   \<and> (\<forall>c m. c \<noteq> CustomerInvocationError \<and> is_Exception c
         \<and> snd (try_body tr send b64 loads h evs) = Inl (Exn c m)
      \<longrightarrow> snd (process_events_batch tr send b64 loads h evs) = Inl (Exn PipeInternalError m))
   \<and> (\<forall>c m. \<not> is_Exception c \<and> snd (try_body tr send b64 loads h evs) = Inl (Exn c m)
      \<longrightarrow> snd (process_events_batch tr send b64 loads h evs) = Inl (Exn c m))
   \<and> (\<forall>c m. snd (process_events_batch tr send b64 loads h evs) = Inl (Exn c m)
      \<longrightarrow> c = CustomerInvocationError \<or> c = PipeInternalError
          \<or> (\<not> is_Exception c \<and> snd (try_body tr send b64 loads h evs) = Inl (Exn c m)))
   \<and> (\<forall>e. snd (try_body tr send b64 loads h evs) = Inl e
      \<longrightarrow> (\<exists>f ev. tr = Some f \<and> f ev = Inl e) \<or> (\<exists>vs. send vs = Inl e))"
proof -
  let ?b = "snd (try_body tr send b64 loads h evs)"
  have p: "snd (process_events_batch tr send b64 loads h evs) = except_clauses ?b"
    by (rule snd_process_events_batch)
  have 1: "?b = Inr () \<longrightarrow> except_clauses ?b = Inr ()" by simp
  have 2: "\<forall>m. ?b = Inl (Exn CustomerInvocationError m)
             \<longrightarrow> except_clauses ?b = Inl (Exn CustomerInvocationError m)" by simp
  have 3: "\<forall>c m. c \<noteq> CustomerInvocationError \<and> is_Exception c \<and> ?b = Inl (Exn c m)
             \<longrightarrow> except_clauses ?b = Inl (Exn PipeInternalError m)" by simp
  have 4: "\<forall>c m. \<not> is_Exception c \<and> ?b = Inl (Exn c m)
             \<longrightarrow> except_clauses ?b = Inl (Exn c m)" by auto
  have 5: "\<forall>c m. except_clauses ?b = Inl (Exn c m)
             \<longrightarrow> c = CustomerInvocationError \<or> c = PipeInternalError
                 \<or> (\<not> is_Exception c \<and> ?b = Inl (Exn c m))"
    using except_clauses_cases[of ?b] by auto
  have 6: "\<forall>e. ?b = Inl e \<longrightarrow> (\<exists>f ev. tr = Some f \<and> f ev = Inl e) \<or> (\<exists>vs. send vs = Inl e)"
    using try_body_origin[of tr send b64 loads h evs] by blast
  show ?thesis unfolding p using 1 2 3 4 5 6 by (intro conjI)
qed

theorem process_events_batch_error_classification_witness:
  "snd (try_body None (\<lambda>vs. Inl (Exn (OtherException ''ConnectionError'') ''refused''))
          (\<lambda>s. None) (\<lambda>s. RaisesJSONDecodeError ''Expecting value'') [[(''k'', PNum (1::int))]] [0])
     = Inl (Exn (OtherException ''ConnectionError'') ''refused'')
   \<and> snd (process_events_batch None (\<lambda>vs. Inl (Exn (OtherException ''ConnectionError'') ''refused''))
          (\<lambda>s. None) (\<lambda>s. RaisesJSONDecodeError ''Expecting value'') [[(''k'', PNum (1::int))]] [0])
     = Inl (Exn PipeInternalError ''refused'')
   \<and> snd (try_body None (\<lambda>vs. Inl (Exn CustomerInvocationError ''denied''))
          (\<lambda>s. None) (\<lambda>s. RaisesJSONDecodeError ''Expecting value'') [[(''k'', PNum (1::int))]] [0])
     = Inl (Exn CustomerInvocationError ''denied'')
   \<and> snd (process_events_batch None (\<lambda>vs. Inl (Exn CustomerInvocationError ''denied''))
          (\<lambda>s. None) (\<lambda>s. RaisesJSONDecodeError ''Expecting value'') [[(''k'', PNum (1::int))]] [0])
     = Inl (Exn CustomerInvocationError ''denied'')
   \<and> snd (try_body None (\<lambda>vs. Inl (Exn (NotAnException ''SystemExit'') ''1''))
          (\<lambda>s. None) (\<lambda>s. RaisesJSONDecodeError ''Expecting value'') [[(''k'', PNum (1::int))]] [0])
     = Inl (Exn (NotAnException ''SystemExit'') ''1'')
   \<and> snd (process_events_batch None (\<lambda>vs. Inl (Exn (NotAnException ''SystemExit'') ''1''))
          (\<lambda>s. None) (\<lambda>s. RaisesJSONDecodeError ''Expecting value'') [[(''k'', PNum (1::int))]] [0])
     = Inl (Exn (NotAnException ''SystemExit'') ''1'')"
proof -
  let ?h = "[[(''k'', PNum (1::int))]]"
  let ?b64 = "\<lambda>s :: string. None :: string option"
  let ?loads = "\<lambda>s :: string. RaisesJSONDecodeError ''Expecting value'' :: int loads_outcome"
  let ?s1 = "\<lambda>vs :: int pyval list. Inl (Exn (OtherException ''ConnectionError'') ''refused'') :: py_exn + unit"
  let ?s2 = "\<lambda>vs :: int pyval list. Inl (Exn CustomerInvocationError ''denied'') :: py_exn + unit"
  let ?s3 = "\<lambda>vs :: int pyval list. Inl (Exn (NotAnException ''SystemExit'') ''1'') :: py_exn + unit"
  have b1: "snd (try_body None ?s1 ?b64 ?loads ?h [0])
              = Inl (Exn (OtherException ''ConnectionError'') ''refused'')"
    by (simp add: try_body_def decode_data_field_h_def)
  have b2: "snd (try_body None ?s2 ?b64 ?loads ?h [0])
              = Inl (Exn CustomerInvocationError ''denied'')"
    by (simp add: try_body_def decode_data_field_h_def)
  have b3: "snd (try_body None ?s3 ?b64 ?loads ?h [0])
              = Inl (Exn (NotAnException ''SystemExit'') ''1'')"
    by (simp add: try_body_def decode_data_field_h_def)
  have ne: "OtherException ''ConnectionError'' \<noteq> CustomerInvocationError
            \<and> is_Exception (OtherException ''ConnectionError'')" by simp
  have nx: "\<not> is_Exception (NotAnException ''SystemExit'')" by simp
  note t1 = process_events_batch_error_classification [of None ?s1 ?b64 ?loads ?h "[0]"]
  note t2 = process_events_batch_error_classification [of None ?s2 ?b64 ?loads ?h "[0]"]
  note t3 = process_events_batch_error_classification [of None ?s3 ?b64 ?loads ?h "[0]"]
  from t1 ne b1 have r1: "snd (process_events_batch None ?s1 ?b64 ?loads ?h [0])
              = Inl (Exn PipeInternalError ''refused'')" by blast
  from t2 b2 have r2: "snd (process_events_batch None ?s2 ?b64 ?loads ?h [0])
              = Inl (Exn CustomerInvocationError ''denied'')" by blast
  from t3 nx b3 have r3: "snd (process_events_batch None ?s3 ?b64 ?loads ?h [0])
              = Inl (Exn (NotAnException ''SystemExit'') ''1'')" by blast
  show ?thesis by (rule conjI[OF b1 conjI[OF r1 conjI[OF b2 conjI[OF r2 conjI[OF b3 r3]]]]])
qed

text \<open>
  C9. Every object that existed before the call, and so every input event, is the same
  after it: decoding writes only to the copy it allocates, and returns the input object
  itself, unwritten, when it has no \<open>data\<close> field.
\<close>

theorem process_events_batch_input_unchanged:
  assumes "\<forall>a\<in>set input_events. a < length h"
  shows "take (length h) (fst (process_events_batch tr send b64 loads h input_events)) = h
         \<and> (\<forall>a\<in>set input_events.
               fst (process_events_batch tr send b64 loads h input_events) ! a = h ! a)"
proof -
  obtain h' as' where d: "decode_all b64 loads h input_events = (h', as')"
    by (cases "decode_all b64 loads h input_events")
  from decode_all_frame[OF d assms] have t: "take (length h) h' = h" by simp
  have "\<forall>a\<in>set input_events. h' ! a = h ! a"
  proof
    fix a assume "a \<in> set input_events"
    with assms have "a < length h" by simp
    then show "h' ! a = h ! a" using t by (metis nth_take)
  qed
  with t d show ?thesis by (simp add: fst_process_events_batch)
qed

theorem process_events_batch_input_unchanged_witness:
  "(0::nat) < length [[(''data'', PStr ''e30=''), (''id'', PNum (1::int))], [(''id'', PNum 2)]]
   \<and> (1::nat) < length [[(''data'', PStr ''e30=''), (''id'', PNum (1::int))], [(''id'', PNum 2)]]
   \<and> fst (process_events_batch None (\<lambda>vs. Inr ())
             (\<lambda>s. if s = ''e30='' then Some ''{}'' else None)
             (\<lambda>s. if s = ''{}'' then Parsed (PDict []) else RaisesJSONDecodeError ''Expecting value'')
             [[(''data'', PStr ''e30=''), (''id'', PNum (1::int))], [(''id'', PNum 2)]] [0, 1])
       = [[(''data'', PStr ''e30=''), (''id'', PNum 1)], [(''id'', PNum 2)],
          [(''data'', PDict []), (''id'', PNum 1)]]
   \<and> take 2 (fst (process_events_batch None (\<lambda>vs. Inr ())
             (\<lambda>s. if s = ''e30='' then Some ''{}'' else None)
             (\<lambda>s. if s = ''{}'' then Parsed (PDict []) else RaisesJSONDecodeError ''Expecting value'')
             [[(''data'', PStr ''e30=''), (''id'', PNum (1::int))], [(''id'', PNum 2)]] [0, 1]))
       = [[(''data'', PStr ''e30=''), (''id'', PNum 1)], [(''id'', PNum 2)]]"
proof -
  let ?h = "[[(''data'', PStr ''e30=''), (''id'', PNum (1::int))], [(''id'', PNum 2)]]"
  let ?b64 = "\<lambda>s. if s = ''e30='' then Some ''{}'' else None"
  let ?loads = "\<lambda>s. if s = ''{}'' then Parsed (PDict []) :: int loads_outcome
                     else RaisesJSONDecodeError ''Expecting value''"
  let ?send = "\<lambda>vs :: int pyval list. Inr () :: py_exn + unit"
  have v: "\<forall>a\<in>set [0, 1]. a < length ?h" by simp
  have e: "fst (process_events_batch None ?send ?b64 ?loads ?h [0, 1])
       = [[(''data'', PStr ''e30=''), (''id'', PNum 1)], [(''id'', PNum 2)],
          [(''data'', PDict []), (''id'', PNum 1)]]"
    by (simp add: fst_process_events_batch decode_data_field_h_def dict_set_def numeral_3_eq_3)
  from process_events_batch_input_unchanged[OF v, of None ?send ?b64 ?loads]
  have "take (length ?h) (fst (process_events_batch None ?send ?b64 ?loads ?h [0, 1])) = ?h"
    by (rule conjunct1)
  then have t: "take 2 (fst (process_events_batch None ?send ?b64 ?loads ?h [0, 1])) = ?h"
    by (simp add: numeral_2_eq_2)
  have l0: "(0::nat) < length ?h" by simp
  have l1: "(1::nat) < length ?h" by simp
  show ?thesis by (rule conjI[OF l0 conjI[OF l1 conjI[OF e t]]])
qed

section \<open>\<^verbatim>\<open>models.py\<close> and \<^verbatim>\<open>provider.py\<close>: the pipe registry\<close>

text \<open>
  \<^verbatim>\<open>RequestedPipeState\<close> and \<^verbatim>\<open>PipeState\<close> are the enumerations of the API;
  the two share the names RUNNING and STOPPED, so the requested states carry a prefix.
\<close>

datatype requested_pipe_state = ReqRUNNING | ReqSTOPPED | ReqDELETED

datatype pipe_state =
  CREATING | STARTING | RUNNING | STOPPING | STOPPED | UPDATING | DELETING
  | CREATE_FAILED | STOP_FAILED

type_synonym timestamp = nat

type_synonym tag_map = "(string \<times> string) list"

text \<open>
  The dataclass \<^verbatim>\<open>PipeEntity\<close>. The parameter groups are passed through and never
  inspected by the registry: they are values of the type parameter \<open>'p\<close>.
\<close>

record 'p pipe_entity =
  name :: string
  source :: string
  target :: string
  role_arn :: string
  region :: string
  account_id :: string
  description :: "string option"
  desired_state :: requested_pipe_state
  current_state :: pipe_state
  state_reason :: "string option"
  source_parameters :: "'p option"
  target_parameters :: "'p option"
  enrichment :: "string option"
  enrichment_parameters :: "'p option"
  tags :: "tag_map option"
  log_configuration :: "'p option"
  kms_key_identifier :: "string option"
  creation_time :: timestamp
  last_modified_time :: timestamp

text \<open>
  \<^verbatim>\<open>PIPE_NAME_PATTERN = re.compile(r"^[\.\-_A-Za-z0-9]+$")\<close>, used with
  \<^verbatim>\<open>match\<close>: in Python \<^verbatim>\<open>$\<close> also matches before one final newline.
\<close>

definition name_char :: "char \<Rightarrow> bool" where
  "name_char c =
     (let n = (of_char c :: nat)
      in c = CHR ''.'' \<or> c = CHR ''-'' \<or> c = CHR ''_''
         \<or> (65 \<le> n \<and> n \<le> 90) \<or> (97 \<le> n \<and> n \<le> 122) \<or> (48 \<le> n \<and> n \<le> 57))"

definition PIPE_NAME_PATTERN_match :: "string \<Rightarrow> bool" where
  "PIPE_NAME_PATTERN_match s =
     (s \<noteq> [] \<and>
      (list_all name_char s
       \<or> (last s = CHR 0x0A \<and> butlast s \<noteq> [] \<and> list_all name_char (butlast s))))"

definition PIPE_NAME_MAX_LENGTH :: nat where
  "PIPE_NAME_MAX_LENGTH = 64"

datatype api_error =
    ValidationException string
  | ConflictException string string string
  | NotFoundException string

definition validate_pipe_name :: "string \<Rightarrow> api_error + unit" where
  "validate_pipe_name nm =
     (if nm = [] \<or> length nm > PIPE_NAME_MAX_LENGTH \<or> \<not> PIPE_NAME_PATTERN_match nm
      then Inl (ValidationException
             (''1 validation error detected: Value '' @ [CHR 0x27] @ nm @ [CHR 0x27] @
              '' at '' @ [CHR 0x27] @ ''name'' @ [CHR 0x27] @
              '' failed to satisfy constraint: '' @
              ''Member must satisfy regular expression pattern: ['' @ [CHR 0x5C] @
              ''-_A-Za-z0-9]+ and have length between 1 and 64''))
      else Inr ())"

definition pipe_arn :: "string \<Rightarrow> string \<Rightarrow> string \<Rightarrow> string" where
  "pipe_arn nm account rgn = ''arn:aws:pipes:'' @ rgn @ '':'' @ account @ '':pipe/'' @ nm"

definition arn :: "'p pipe_entity \<Rightarrow> string" where
  "arn p = pipe_arn (name p) (account_id p) (region p)"

text \<open>
  One account and region: the store's \<^verbatim>\<open>pipes\<close> and \<^verbatim>\<open>TAGS\<close>, and the
  provider's \<^verbatim>\<open>_pipe_workers\<close> (the names that have a worker registered).
\<close>

record 'p provider_state =
  pipes :: "string \<rightharpoonup> 'p pipe_entity"
  TAGS :: "string \<rightharpoonup> tag_map"
  pipe_workers :: "string set"

definition dict_update :: "tag_map \<Rightarrow> tag_map \<Rightarrow> tag_map" where
  "dict_update d new = foldl (\<lambda>acc (k, v). dict_set acc k v) d new"

definition dict_pop_all :: "tag_map \<Rightarrow> string list \<Rightarrow> tag_map" where
  "dict_pop_all d ks = filter (\<lambda>(k, v). k \<notin> set ks) d"

text \<open>
  Modelled from the spec: the class \<^verbatim>\<open>TaggingService\<close> of
  \<^verbatim>\<open>localstack.utils.tagging\<close> is not among the source files. The specification
  treats tag storage as a key-value service keyed by resource identifier: tagging adds or
  overwrites the given keys of the resource, untagging removes the given keys, listing
  returns the tags of the resource.
\<close>

definition tagging_tag_resource :: "(string \<rightharpoonup> tag_map) \<Rightarrow> string \<Rightarrow> tag_map \<Rightarrow> (string \<rightharpoonup> tag_map)" where
  "tagging_tag_resource T a new =
     T(a \<mapsto> dict_update (case T a of None \<Rightarrow> [] | Some d \<Rightarrow> d) new)"

definition tagging_untag_resource :: "(string \<rightharpoonup> tag_map) \<Rightarrow> string \<Rightarrow> string list \<Rightarrow> (string \<rightharpoonup> tag_map)" where
  "tagging_untag_resource T a ks =
     (case T a of None \<Rightarrow> T | Some d \<Rightarrow> T(a \<mapsto> dict_pop_all d ks))"

definition tagging_list_tags_for_resource :: "(string \<rightharpoonup> tag_map) \<Rightarrow> string \<Rightarrow> tag_map" where
  "tagging_list_tags_for_resource T a = (case T a of None \<Rightarrow> [] | Some d \<Rightarrow> d)"

text \<open>
  What a call finds outside the registry: the clock (\<^verbatim>\<open>datetime.now(UTC)\<close>), the
  request context, and the worker machinery. \<^verbatim>\<open>PipeWorkerFactory.create\<close> can raise
  before a worker is registered, \<^verbatim>\<open>worker.start()\<close> after it, or both succeed, in
  which case \<^verbatim>\<open>start\<close> has set the state STARTING. The factory also writes the
  default parameter groups of the poller into the source parameters
  (\<open>poller_defaults\<close>). \<open>worker_stop_ok\<close> tells whether \<^verbatim>\<open>worker.stop()\<close>
  returns.
\<close>

datatype worker_start = FactoryRaises | StartRaises | Started

record 'p call_env =
  now :: timestamp
  ctx_account_id :: string
  ctx_region :: string
  worker_start :: worker_start
  poller_defaults :: "'p option \<Rightarrow> 'p option"
  worker_stop_ok :: bool

record pipe_response =
  Arn :: string
  Name :: string
  DesiredState :: requested_pipe_state
  CurrentState :: pipe_state
  CreationTime :: timestamp
  LastModifiedTime :: timestamp

definition response_of :: "'p pipe_entity \<Rightarrow> pipe_response" where
  "response_of p =
     \<lparr>Arn = arn p, Name = name p, DesiredState = desired_state p,
      CurrentState = current_state p, CreationTime = creation_time p,
      LastModifiedTime = last_modified_time p\<rparr>"

definition get_pipe :: "'p provider_state \<Rightarrow> string \<Rightarrow> api_error + 'p pipe_entity" where
  "get_pipe s nm =
     (case pipes s nm of
        None \<Rightarrow> Inl (NotFoundException (''Pipe '' @ nm @ '' does not exist.''))
      | Some p \<Rightarrow> Inr p)"

definition start_pipe_worker ::
  "'p call_env \<Rightarrow> string set \<Rightarrow> 'p pipe_entity \<Rightarrow> string set \<times> 'p pipe_entity"
where
  "start_pipe_worker env workers p =
     (let p1 = p\<lparr>source_parameters := poller_defaults env (source_parameters p)\<rparr>
      in case worker_start env of
           FactoryRaises \<Rightarrow>
             (workers,
              p1\<lparr>current_state := CREATE_FAILED,
                 state_reason := Some ''Failed to start pipe worker''\<rparr>)
         | StartRaises \<Rightarrow>
             (insert (name p) workers,
              p1\<lparr>current_state := CREATE_FAILED,
                 state_reason := Some ''Failed to start pipe worker''\<rparr>)
         | Started \<Rightarrow> (insert (name p) workers, p1\<lparr>current_state := STARTING\<rparr>))"

definition stop_pipe_worker ::
  "'p call_env \<Rightarrow> string set \<Rightarrow> 'p pipe_entity \<Rightarrow> string set \<times> 'p pipe_entity"
where
  "stop_pipe_worker env workers p =
     (if name p \<in> workers
      then (workers - {name p},
            p\<lparr>current_state := (if worker_stop_ok env then STOPPED else STOP_FAILED)\<rparr>)
      else (workers, p))"

record 'p create_pipe_request =
  cr_name :: string
  cr_source :: string
  cr_target :: string
  cr_role_arn :: string
  cr_description :: "string option"
  cr_desired_state :: "requested_pipe_state option"
  cr_source_parameters :: "'p option"
  cr_enrichment :: "string option"
  cr_enrichment_parameters :: "'p option"
  cr_target_parameters :: "'p option"
  cr_tags :: "tag_map option"
  cr_log_configuration :: "'p option"
  cr_kms_key_identifier :: "string option"

definition create_pipe ::
  "'p call_env \<Rightarrow> 'p provider_state \<Rightarrow> 'p create_pipe_request \<Rightarrow>
   'p provider_state \<times> (api_error + pipe_response)"
where
  "create_pipe env s rq =
     (case validate_pipe_name (cr_name rq) of
        Inl e \<Rightarrow> (s, Inl e)
      | Inr u \<Rightarrow>
          if pipes s (cr_name rq) \<noteq> None
          then (s, Inl (ConflictException (''Pipe '' @ cr_name rq @ '' already exists.'')
                          (cr_name rq) ''pipe''))
          else
            let desired = (case cr_desired_state rq of None \<Rightarrow> ReqRUNNING | Some d \<Rightarrow> d);
                p = \<lparr>name = cr_name rq, source = cr_source rq, target = cr_target rq,
                     role_arn = cr_role_arn rq, region = ctx_region env,
                     account_id = ctx_account_id env, description = cr_description rq,
                     desired_state = desired, current_state = CREATING,
                     state_reason = None, source_parameters = cr_source_parameters rq,
                     target_parameters = cr_target_parameters rq,
                     enrichment = cr_enrichment rq,
                     enrichment_parameters = cr_enrichment_parameters rq,
                     tags = cr_tags rq, log_configuration = cr_log_configuration rq,
                     kms_key_identifier = cr_kms_key_identifier rq,
                     creation_time = now env, last_modified_time = now env\<rparr>;
                T = (case cr_tags rq of
                       None \<Rightarrow> TAGS s
                     | Some tgs \<Rightarrow>
                         if tgs = [] then TAGS s else tagging_tag_resource (TAGS s) (arn p) tgs);
                (workers, p') =
                  (if desired = ReqRUNNING then start_pipe_worker env (pipe_workers s) p
                   else (pipe_workers s, p\<lparr>current_state := STOPPED\<rparr>))
            in (s\<lparr>pipes := (pipes s)(cr_name rq \<mapsto> p'), TAGS := T, pipe_workers := workers\<rparr>,
                Inr (response_of p')))"

definition delete_pipe ::
  "'p call_env \<Rightarrow> 'p provider_state \<Rightarrow> string \<Rightarrow> 'p provider_state \<times> (api_error + pipe_response)"
where
  "delete_pipe env s nm =
     (case get_pipe s nm of
        Inl e \<Rightarrow> (s, Inl e)
      | Inr p \<Rightarrow>
          let (workers, p1) = stop_pipe_worker env (pipe_workers s) p;
              p2 = p1\<lparr>current_state := DELETING, desired_state := ReqDELETED,
                      last_modified_time := now env\<rparr>;
              T = tagging_untag_resource (TAGS s) (arn p2)
                    (map fst (case tags p2 of None \<Rightarrow> [] | Some d \<Rightarrow> d))
          in (s\<lparr>pipes := (pipes s)(nm := None), TAGS := T, pipe_workers := workers\<rparr>,
              Inr (response_of p2)))"

definition start_pipe ::
  "'p call_env \<Rightarrow> 'p provider_state \<Rightarrow> string \<Rightarrow> 'p provider_state \<times> (api_error + pipe_response)"
where
  "start_pipe env s nm =
     (case get_pipe s nm of
        Inl e \<Rightarrow> (s, Inl e)
      | Inr p \<Rightarrow>
          if desired_state p = ReqRUNNING
          then (s, Inl (ConflictException
                          (''Pipe '' @ nm @ '' is already in the desired state RUNNING.'')
                          nm ''pipe''))
          else
            let p1 = p\<lparr>desired_state := ReqRUNNING, last_modified_time := now env\<rparr>;
                (workers, p2) = start_pipe_worker env (pipe_workers s) p1
            in (s\<lparr>pipes := (pipes s)(nm \<mapsto> p2), pipe_workers := workers\<rparr>,
                Inr (response_of p2)))"

definition stop_pipe ::
  "'p call_env \<Rightarrow> 'p provider_state \<Rightarrow> string \<Rightarrow> 'p provider_state \<times> (api_error + pipe_response)"
where
  "stop_pipe env s nm =
     (case get_pipe s nm of
        Inl e \<Rightarrow> (s, Inl e)
      | Inr p \<Rightarrow>
          if desired_state p = ReqSTOPPED
          then (s, Inl (ConflictException
                          (''Pipe '' @ nm @ '' is already in the desired state STOPPED.'')
                          nm ''pipe''))
          else
            let p1 = p\<lparr>desired_state := ReqSTOPPED, last_modified_time := now env\<rparr>;
                (workers, p2) = stop_pipe_worker env (pipe_workers s) p1
            in (s\<lparr>pipes := (pipes s)(nm \<mapsto> p2), pipe_workers := workers\<rparr>,
                Inr (response_of p2)))"

record 'p update_pipe_request =
  up_name :: string
  up_role_arn :: string
  up_description :: "string option"
  up_desired_state :: "requested_pipe_state option"
  up_source_parameters :: "'p option"
  up_enrichment :: "string option"
  up_enrichment_parameters :: "'p option"
  up_target :: "string option"
  up_target_parameters :: "'p option"
  up_log_configuration :: "'p option"
  up_kms_key_identifier :: "string option"

definition set_if_given :: "'a option \<Rightarrow> 'a \<Rightarrow> 'a" where
  "set_if_given new old = (case new of None \<Rightarrow> old | Some v \<Rightarrow> v)"

definition set_opt_if_given :: "'a option \<Rightarrow> 'a option \<Rightarrow> 'a option" where
  "set_opt_if_given new old = (case new of None \<Rightarrow> old | Some v \<Rightarrow> Some v)"

definition update_pipe ::
  "'p call_env \<Rightarrow> 'p provider_state \<Rightarrow> 'p update_pipe_request \<Rightarrow>
   'p provider_state \<times> (api_error + pipe_response)"
where
  "update_pipe env s rq =
     (case get_pipe s (up_name rq) of
        Inl e \<Rightarrow> (s, Inl e)
      | Inr p \<Rightarrow>
          let (workers, p1) = stop_pipe_worker env (pipe_workers s) p;
              p2 = p1\<lparr>role_arn := up_role_arn rq,
                      description := set_opt_if_given (up_description rq) (description p1),
                      desired_state := set_if_given (up_desired_state rq) (desired_state p1),
                      source_parameters :=
                        set_opt_if_given (up_source_parameters rq) (source_parameters p1),
                      enrichment := set_opt_if_given (up_enrichment rq) (enrichment p1),
                      enrichment_parameters :=
                        set_opt_if_given (up_enrichment_parameters rq) (enrichment_parameters p1),
                      target := set_if_given (up_target rq) (target p1),
                      target_parameters :=
                        set_opt_if_given (up_target_parameters rq) (target_parameters p1),
                      log_configuration :=
                        set_opt_if_given (up_log_configuration rq) (log_configuration p1),
                      kms_key_identifier :=
                        set_opt_if_given (up_kms_key_identifier rq) (kms_key_identifier p1),
                      current_state := UPDATING,
                      last_modified_time := now env\<rparr>;
              effective_desired = set_if_given (up_desired_state rq) (desired_state p2);
              (workers', p3) =
                (if effective_desired = ReqRUNNING then start_pipe_worker env workers p2
                 else (workers, p2\<lparr>current_state := STOPPED\<rparr>))
          in (s\<lparr>pipes := (pipes s)(up_name rq \<mapsto> p3), pipe_workers := workers'\<rparr>,
              Inr (response_of p3)))"

text \<open>
  \<^verbatim>\<open>re.match(r"arn:aws:pipes:[^:]+:[^:]+:pipe/(.+)", arn)\<close>: the match is anchored at
  the start only, \<^verbatim>\<open>[^:]+\<close> is a longest non-empty run without a colon, and
  \<^verbatim>\<open>.+\<close> a longest non-empty run without a newline.
\<close>

fun strip_prefix :: "string \<Rightarrow> string \<Rightarrow> string option" where
  "strip_prefix [] s = Some s"
| "strip_prefix (p # ps) [] = None"
| "strip_prefix (p # ps) (c # cs) = (if p = c then strip_prefix ps cs else None)"

definition match_pipe_arn :: "string \<Rightarrow> string option" where
  "match_pipe_arn a =
     (case strip_prefix ''arn:aws:pipes:'' a of
        None \<Rightarrow> None
      | Some r1 \<Rightarrow>
          if takeWhile (\<lambda>c. c \<noteq> CHR '':'') r1 = [] then None
          else
            (case strip_prefix '':'' (dropWhile (\<lambda>c. c \<noteq> CHR '':'') r1) of
               None \<Rightarrow> None
             | Some r2 \<Rightarrow>
                 if takeWhile (\<lambda>c. c \<noteq> CHR '':'') r2 = [] then None
                 else
                   (case strip_prefix '':pipe/'' (dropWhile (\<lambda>c. c \<noteq> CHR '':'') r2) of
                      None \<Rightarrow> None
                    | Some r3 \<Rightarrow>
                        if takeWhile (\<lambda>c. c \<noteq> CHR 0x0A) r3 = [] then None
                        else Some (takeWhile (\<lambda>c. c \<noteq> CHR 0x0A) r3))))"

definition pipe_name_from_arn :: "string \<Rightarrow> string" where
  "pipe_name_from_arn a = (case match_pipe_arn a of Some nm \<Rightarrow> nm | None \<Rightarrow> a)"

definition tag_resource ::
  "'p call_env \<Rightarrow> 'p provider_state \<Rightarrow> string \<Rightarrow> tag_map \<Rightarrow> 'p provider_state \<times> (api_error + unit)"
where
  "tag_resource env s resource_arn tgs =
     (let pipe_name = pipe_name_from_arn resource_arn
      in case get_pipe s pipe_name of
           Inl e \<Rightarrow> (s, Inl e)
         | Inr p \<Rightarrow>
             let T = tagging_tag_resource (TAGS s) resource_arn tgs;
                 p1 = p\<lparr>tags := Some (dict_update (case tags p of None \<Rightarrow> [] | Some d \<Rightarrow> d) tgs)\<rparr>
             in (s\<lparr>pipes := (pipes s)(pipe_name \<mapsto> p1), TAGS := T\<rparr>, Inr ()))"

definition untag_resource ::
  "'p call_env \<Rightarrow> 'p provider_state \<Rightarrow> string \<Rightarrow> string list \<Rightarrow> 'p provider_state \<times> (api_error + unit)"
where
  "untag_resource env s resource_arn tag_keys =
     (let pipe_name = pipe_name_from_arn resource_arn
      in case get_pipe s pipe_name of
           Inl e \<Rightarrow> (s, Inl e)
         | Inr p \<Rightarrow>
             let T = tagging_untag_resource (TAGS s) resource_arn tag_keys;
                 p1 = (case tags p of
                         None \<Rightarrow> p
                       | Some d \<Rightarrow> if d = [] then p else p\<lparr>tags := Some (dict_pop_all d tag_keys)\<rparr>)
             in (s\<lparr>pipes := (pipes s)(pipe_name \<mapsto> p1), TAGS := T\<rparr>, Inr ()))"

definition list_tags_for_resource ::
  "'p call_env \<Rightarrow> 'p provider_state \<Rightarrow> string \<Rightarrow> 'p provider_state \<times> (api_error + tag_map)"
where
  "list_tags_for_resource env s resource_arn =
     (case get_pipe s (pipe_name_from_arn resource_arn) of
        Inl e \<Rightarrow> (s, Inl e)
      | Inr p \<Rightarrow> (s, Inr (tagging_list_tags_for_resource (TAGS s) resource_arn)))"


subsection \<open>Reachable registry states\<close>

text \<open>
  \<^verbatim>\<open>on_before_stop\<close> stops every worker (each sets its pipe to STOPPING) and clears the
  worker index; a worker thread writes RUNNING when its loop starts and STOPPED when it ends
  (\<^verbatim>\<open>pipe_worker.py\<close>). The reachable states are those the operations of the
  provider and these two produce from the empty registry.
\<close>

definition on_before_stop :: "'p provider_state \<Rightarrow> 'p provider_state" where
  "on_before_stop s =
     s\<lparr>pipes := (\<lambda>nm. case pipes s nm of
                         None \<Rightarrow> None
                       | Some p \<Rightarrow> Some (if name p \<in> pipe_workers s
                                          then p\<lparr>current_state := STOPPING\<rparr> else p)),
       pipe_workers := {}\<rparr>"

definition worker_thread_writes ::
  "'p provider_state \<Rightarrow> string \<Rightarrow> pipe_state \<Rightarrow> 'p provider_state"
where
  "worker_thread_writes s nm st =
     (case pipes s nm of
        None \<Rightarrow> s
      | Some p \<Rightarrow> s\<lparr>pipes := (pipes s)(nm \<mapsto> p\<lparr>current_state := st\<rparr>)\<rparr>)"

definition initial_state :: "'p provider_state" where
  "initial_state = \<lparr>pipes = Map.empty, TAGS = Map.empty, pipe_workers = {}\<rparr>"

inductive reachable :: "'p provider_state \<Rightarrow> bool" where
  r_init: "reachable initial_state"
| r_create: "reachable s \<Longrightarrow> reachable (fst (create_pipe env s rq))"
| r_update: "reachable s \<Longrightarrow> reachable (fst (update_pipe env s urq))"
| r_delete: "reachable s \<Longrightarrow> reachable (fst (delete_pipe env s nm))"
| r_start: "reachable s \<Longrightarrow> reachable (fst (start_pipe env s nm))"
| r_stop: "reachable s \<Longrightarrow> reachable (fst (stop_pipe env s nm))"
| r_tag: "reachable s \<Longrightarrow> reachable (fst (tag_resource env s a tgs))"
| r_untag: "reachable s \<Longrightarrow> reachable (fst (untag_resource env s a ks))"
| r_worker: "reachable s \<Longrightarrow> st = RUNNING \<or> st = STOPPED \<Longrightarrow>
             reachable (worker_thread_writes s nm st)"
| r_before_stop: "reachable s \<Longrightarrow> reachable (on_before_stop s)"

definition names_valid :: "'p provider_state \<Rightarrow> bool" where
  "names_valid s = (\<forall>nm. pipes s nm \<noteq> None \<longrightarrow> validate_pipe_name nm = Inr ())"

lemma get_pipe_Inr: "get_pipe s nm = Inr p \<longleftrightarrow> pipes s nm = Some p"
  by (auto simp: get_pipe_def split: option.splits)

lemma dom_create_pipe:
  "pipes (fst (create_pipe env s rq)) nm \<noteq> None \<Longrightarrow>
   pipes s nm \<noteq> None \<or> (nm = cr_name rq \<and> validate_pipe_name nm = Inr ())"
  by (auto simp: create_pipe_def Let_def split_beta split: sum.splits if_splits)

lemma dom_update_pipe:
  "pipes (fst (update_pipe env s rq)) nm \<noteq> None \<Longrightarrow> pipes s nm \<noteq> None"
  by (auto simp: update_pipe_def Let_def split_beta get_pipe_Inr split: sum.splits if_splits)

lemma dom_delete_pipe:
  "pipes (fst (delete_pipe env s n)) nm \<noteq> None \<Longrightarrow> pipes s nm \<noteq> None"
  by (auto simp: delete_pipe_def Let_def split_beta get_pipe_Inr split: sum.splits if_splits)

lemma dom_start_pipe:
  "pipes (fst (start_pipe env s n)) nm \<noteq> None \<Longrightarrow> pipes s nm \<noteq> None"
  by (auto simp: start_pipe_def Let_def split_beta get_pipe_Inr split: sum.splits if_splits)

lemma dom_stop_pipe:
  "pipes (fst (stop_pipe env s n)) nm \<noteq> None \<Longrightarrow> pipes s nm \<noteq> None"
  by (auto simp: stop_pipe_def Let_def split_beta get_pipe_Inr split: sum.splits if_splits)

lemma dom_tag_resource:
  "pipes (fst (tag_resource env s a tgs)) nm \<noteq> None \<Longrightarrow> pipes s nm \<noteq> None"
  by (auto simp: tag_resource_def Let_def get_pipe_Inr split: sum.splits if_splits)

lemma dom_untag_resource:
  "pipes (fst (untag_resource env s a ks)) nm \<noteq> None \<Longrightarrow> pipes s nm \<noteq> None"
  by (auto simp: untag_resource_def Let_def get_pipe_Inr split: sum.splits if_splits)

lemma dom_worker_thread_writes:
  "pipes (worker_thread_writes s n st) nm \<noteq> None \<Longrightarrow> pipes s nm \<noteq> None"
  by (auto simp: worker_thread_writes_def split: option.splits if_splits)

lemma dom_on_before_stop:
  "pipes (on_before_stop s) nm \<noteq> None \<Longrightarrow> pipes s nm \<noteq> None"
  by (auto simp: on_before_stop_def split: option.splits)

lemma reachable_names_valid: "reachable s \<Longrightarrow> names_valid s"
proof (induction rule: reachable.induct)
  case r_init
  then show ?case by (simp add: names_valid_def initial_state_def)
next
  case (r_create s env rq)
  then show ?case unfolding names_valid_def using dom_create_pipe by blast
next
  case (r_update s env urq)
  then show ?case unfolding names_valid_def using dom_update_pipe by blast
next
  case (r_delete s env nm)
  then show ?case unfolding names_valid_def using dom_delete_pipe by blast
next
  case (r_start s env nm)
  then show ?case unfolding names_valid_def using dom_start_pipe by blast
next
  case (r_stop s env nm)
  then show ?case unfolding names_valid_def using dom_stop_pipe by blast
next
  case (r_tag s env a tgs)
  then show ?case unfolding names_valid_def using dom_tag_resource by blast
next
  case (r_untag s env a ks)
  then show ?case unfolding names_valid_def using dom_untag_resource by blast
next
  case (r_worker s st nm)
  then show ?case unfolding names_valid_def using dom_worker_thread_writes by blast
next
  case (r_before_stop s)
  then show ?case unfolding names_valid_def using dom_on_before_stop by blast
qed

lemma create_pipe_existing:
  assumes "pipes s (cr_name rq) \<noteq> None"
  shows "fst (create_pipe env s rq) = s"
    and "validate_pipe_name (cr_name rq) = Inr () \<Longrightarrow>
         snd (create_pipe env s rq)
           = Inl (ConflictException (''Pipe '' @ cr_name rq @ '' already exists.'')
                    (cr_name rq) ''pipe'')"
  using assms by (auto simp: create_pipe_def split: sum.splits)

text \<open>
  C5. In every reachable registry state that holds a pipe named \<open>N\<close>, a further
  \<open>create_pipe\<close> with the name \<open>N\<close> raises ConflictException and returns the state it
  was given: the pipe entity with all its fields and the tag service are as before.
\<close>

theorem create_pipe_duplicate_conflict:
  assumes "reachable s" and "pipes s (cr_name rq) = Some p"
  shows "snd (create_pipe env s rq)
           = Inl (ConflictException (''Pipe '' @ cr_name rq @ '' already exists.'')
                    (cr_name rq) ''pipe'')
         \<and> fst (create_pipe env s rq) = s
         \<and> pipes (fst (create_pipe env s rq)) (cr_name rq) = Some p
         \<and> TAGS (fst (create_pipe env s rq)) = TAGS s"
proof -
  from assms(2) have ex: "pipes s (cr_name rq) \<noteq> None" by simp
  from reachable_names_valid[OF assms(1)] ex
  have v: "validate_pipe_name (cr_name rq) = Inr ()" by (simp add: names_valid_def)
  from create_pipe_existing(1)[OF ex] have f: "fst (create_pipe env s rq) = s" .
  from create_pipe_existing(2)[OF ex v] f assms(2) show ?thesis by simp
qed

lemma start_pipe_conflict_iff:
  assumes "pipes s nm = Some p"
  shows "(\<exists>m r t. snd (start_pipe env s nm) = Inl (ConflictException m r t))
           \<longleftrightarrow> desired_state p = ReqRUNNING"
  using assms by (auto simp: start_pipe_def get_pipe_def Let_def split_beta)

lemma stop_pipe_conflict_iff:
  assumes "pipes s nm = Some p"
  shows "(\<exists>m r t. snd (stop_pipe env s nm) = Inl (ConflictException m r t))
           \<longleftrightarrow> desired_state p = ReqSTOPPED"
  using assms by (auto simp: stop_pipe_def get_pipe_def Let_def split_beta)

lemma start_pipe_conflict_unchanged:
  "pipes s nm = Some p \<Longrightarrow> desired_state p = ReqRUNNING \<Longrightarrow> fst (start_pipe env s nm) = s"
  by (simp add: start_pipe_def get_pipe_def)

lemma stop_pipe_conflict_unchanged:
  "pipes s nm = Some p \<Longrightarrow> desired_state p = ReqSTOPPED \<Longrightarrow> fst (stop_pipe env s nm) = s"
  by (simp add: stop_pipe_def get_pipe_def)

text \<open>
  C6. For an existing pipe, \<open>start_pipe\<close> raises ConflictException exactly when the
  pipe's desired state is already RUNNING and \<open>stop_pipe\<close> exactly when it is already
  STOPPED (the state the code tests and its message names: "is already in the desired
  state"); on the conflict branch the whole registry, and so the entity, is unchanged.
\<close>

theorem start_stop_conflict_iff_desired_state:
  assumes "pipes s nm = Some p"
  shows "((\<exists>m r t. snd (start_pipe env s nm) = Inl (ConflictException m r t))
            \<longleftrightarrow> desired_state p = ReqRUNNING)
       \<and> (desired_state p = ReqRUNNING \<longrightarrow>
            fst (start_pipe env s nm) = s \<and> pipes (fst (start_pipe env s nm)) nm = Some p)
       \<and> ((\<exists>m r t. snd (stop_pipe env s nm) = Inl (ConflictException m r t))
            \<longleftrightarrow> desired_state p = ReqSTOPPED)
       \<and> (desired_state p = ReqSTOPPED \<longrightarrow>
            fst (stop_pipe env s nm) = s \<and> pipes (fst (stop_pipe env s nm)) nm = Some p)"
  using assms start_pipe_conflict_iff[OF assms, of env] stop_pipe_conflict_iff[OF assms, of env]
    start_pipe_conflict_unchanged[OF assms, of env] stop_pipe_conflict_unchanged[OF assms, of env]
  by simp

subsection \<open>Resource ARNs\<close>

text \<open>
  What it means for a string to match the pattern
  \<^verbatim>\<open>arn:aws:pipes:<region>:<account>:pipe/<name>\<close>, stated without the matcher: the
  region and the account are non-empty and hold no colon, the name is non-empty and holds
  no newline, and anything may follow.
\<close>

definition is_pipe_arn :: "string \<Rightarrow> bool" where
  "is_pipe_arn a =
     (\<exists>rgn account nm rest.
        a = ''arn:aws:pipes:'' @ rgn @ '':'' @ account @ '':pipe/'' @ nm @ rest
        \<and> rgn \<noteq> [] \<and> CHR '':'' \<notin> set rgn
        \<and> account \<noteq> [] \<and> CHR '':'' \<notin> set account
        \<and> nm \<noteq> [] \<and> CHR 0x0A \<notin> set nm)"

lemma strip_prefix_Some: "strip_prefix p s = Some r \<longleftrightarrow> s = p @ r"
  by (induction p s rule: strip_prefix.induct) auto

lemma takeWhile_not_mem: "c \<notin> set (takeWhile (\<lambda>x. x \<noteq> c) s)"
  by (induction s) auto

lemma match_pipe_arn_sound:
  assumes "match_pipe_arn a = Some nm"
  shows "is_pipe_arn a"
proof -
  let ?nc = "\<lambda>c. c \<noteq> CHR '':''"
  let ?nl = "\<lambda>c. c \<noteq> CHR 0x0A"
  from assms obtain r1 where r1: "strip_prefix ''arn:aws:pipes:'' a = Some r1"
    by (auto simp: match_pipe_arn_def split: option.splits)
  with assms have ne1: "takeWhile ?nc r1 \<noteq> []"
    by (auto simp: match_pipe_arn_def split: option.splits if_splits)
  with assms r1 obtain r2 where r2: "strip_prefix '':'' (dropWhile ?nc r1) = Some r2"
    by (auto simp: match_pipe_arn_def split: option.splits if_splits)
  with assms r1 ne1 have ne2: "takeWhile ?nc r2 \<noteq> []"
    by (auto simp: match_pipe_arn_def split: option.splits if_splits)
  with assms r1 ne1 r2 obtain r3 where r3: "strip_prefix '':pipe/'' (dropWhile ?nc r2) = Some r3"
    by (auto simp: match_pipe_arn_def split: option.splits if_splits)
  with assms r1 ne1 r2 ne2 have ne3: "takeWhile ?nl r3 \<noteq> []"
    by (auto simp: match_pipe_arn_def split: option.splits if_splits)
  have a1: "a = ''arn:aws:pipes:'' @ r1" using r1 by (simp only: strip_prefix_Some)
  have a2: "dropWhile ?nc r1 = '':'' @ r2" using r2 by (simp only: strip_prefix_Some)
  have a3: "dropWhile ?nc r2 = '':pipe/'' @ r3" using r3 by (simp only: strip_prefix_Some)
  have s1: "r1 = takeWhile ?nc r1 @ '':'' @ r2"
    using takeWhile_dropWhile_id[of ?nc r1] a2 by simp
  have s2: "r2 = takeWhile ?nc r2 @ '':pipe/'' @ r3"
    using takeWhile_dropWhile_id[of ?nc r2] a3 by simp
  have s3: "r3 = takeWhile ?nl r3 @ dropWhile ?nl r3" by simp
  have "a = ''arn:aws:pipes:'' @ takeWhile ?nc r1 @ '':'' @ takeWhile ?nc r2 @ '':pipe/''
              @ takeWhile ?nl r3 @ dropWhile ?nl r3"
    using a1 s1 s2 s3 by (metis append_assoc)
  moreover have "CHR '':'' \<notin> set (takeWhile ?nc r1)" "CHR '':'' \<notin> set (takeWhile ?nc r2)"
    "CHR 0x0A \<notin> set (takeWhile ?nl r3)"
    by (rule takeWhile_not_mem)+
  ultimately show ?thesis unfolding is_pipe_arn_def using ne1 ne2 ne3 by blast
qed

lemma takeWhile_until: "c \<notin> set xs \<Longrightarrow> takeWhile (\<lambda>x. x \<noteq> c) (xs @ c # ys) = xs"
  by (induction xs) auto

lemma dropWhile_until: "c \<notin> set xs \<Longrightarrow> dropWhile (\<lambda>x. x \<noteq> c) (xs @ c # ys) = c # ys"
  by (induction xs) auto

lemma takeWhile_prefix_nonempty:
  "xs \<noteq> [] \<Longrightarrow> c \<notin> set xs \<Longrightarrow> takeWhile (\<lambda>x. x \<noteq> c) (xs @ ys) \<noteq> []"
  by (cases xs) auto

lemma match_pipe_arn_complete:
  assumes "is_pipe_arn a"
  shows "match_pipe_arn a \<noteq> None"
proof -
  from assms obtain rgn account nm rest where
    a: "a = ''arn:aws:pipes:'' @ rgn @ '':'' @ account @ '':pipe/'' @ nm @ rest"
    and r: "rgn \<noteq> []" "CHR '':'' \<notin> set rgn"
    and c: "account \<noteq> []" "CHR '':'' \<notin> set account"
    and n: "nm \<noteq> []" "CHR 0x0A \<notin> set nm"
    unfolding is_pipe_arn_def by blast
  have p1: "strip_prefix ''arn:aws:pipes:'' a = Some (rgn @ '':'' @ account @ '':pipe/'' @ nm @ rest)"
    unfolding strip_prefix_Some a by simp
  have t1: "takeWhile (\<lambda>x. x \<noteq> CHR '':'') (rgn @ '':'' @ account @ '':pipe/'' @ nm @ rest) = rgn"
    using takeWhile_until[OF r(2)] by simp
  have d1: "dropWhile (\<lambda>x. x \<noteq> CHR '':'') (rgn @ '':'' @ account @ '':pipe/'' @ nm @ rest)
              = '':'' @ account @ '':pipe/'' @ nm @ rest"
    using dropWhile_until[OF r(2)] by simp
  have p2: "strip_prefix '':'' ('':'' @ account @ '':pipe/'' @ nm @ rest)
              = Some (account @ '':pipe/'' @ nm @ rest)"
    unfolding strip_prefix_Some by simp
  have t2: "takeWhile (\<lambda>x. x \<noteq> CHR '':'') (account @ '':pipe/'' @ nm @ rest) = account"
    using takeWhile_until[OF c(2)] by simp
  have d2: "dropWhile (\<lambda>x. x \<noteq> CHR '':'') (account @ '':pipe/'' @ nm @ rest)
              = '':pipe/'' @ nm @ rest"
    using dropWhile_until[OF c(2)] by simp
  have p3: "strip_prefix '':pipe/'' ('':pipe/'' @ nm @ rest) = Some (nm @ rest)"
    unfolding strip_prefix_Some by simp
  have t3: "takeWhile (\<lambda>x. x \<noteq> CHR 0x0A) (nm @ rest) \<noteq> []"
    using takeWhile_prefix_nonempty[OF n] .
  show ?thesis
    unfolding match_pipe_arn_def p1 option.case t1 d1 p2 t2 d2 p3
    using r(1) c(1) t3 by simp
qed

lemma pipe_name_from_arn_no_match: "\<not> is_pipe_arn a \<Longrightarrow> pipe_name_from_arn a = a"
  using match_pipe_arn_sound[of a]
  by (auto simp: pipe_name_from_arn_def split: option.splits)

text \<open>
  C10. For a string that does not match the pattern, \<open>pipe_name_from_arn\<close> returns the
  string itself; so when no pipe has the whole string as its name, \<open>tag_resource\<close>,
  \<open>untag_resource\<close> and \<open>list_tags_for_resource\<close> raise NotFoundException for a pipe of
  that name, and leave the registry as it was.
\<close>

theorem malformed_arn_is_looked_up_as_name:
  "\<not> is_pipe_arn a \<longrightarrow>
     pipe_name_from_arn a = a
     \<and> (pipes s a = None \<longrightarrow>
          tag_resource env s a tgs
            = (s, Inl (NotFoundException (''Pipe '' @ a @ '' does not exist.'')))
          \<and> untag_resource env s a ks
            = (s, Inl (NotFoundException (''Pipe '' @ a @ '' does not exist.'')))
          \<and> list_tags_for_resource env s a
            = (s, Inl (NotFoundException (''Pipe '' @ a @ '' does not exist.''))))"
proof (intro impI conjI)
  assume m: "\<not> is_pipe_arn a"
  then show n: "pipe_name_from_arn a = a" by (rule pipe_name_from_arn_no_match)
  assume "pipes s a = None"
  then have g: "get_pipe s a = Inl (NotFoundException (''Pipe '' @ a @ '' does not exist.''))"
    by (simp add: get_pipe_def)
  show "tag_resource env s a tgs
          = (s, Inl (NotFoundException (''Pipe '' @ a @ '' does not exist.'')))"
    by (simp add: tag_resource_def n g)
  show "untag_resource env s a ks
          = (s, Inl (NotFoundException (''Pipe '' @ a @ '' does not exist.'')))"
    by (simp add: untag_resource_def n g)
  show "list_tags_for_resource env s a
          = (s, Inl (NotFoundException (''Pipe '' @ a @ '' does not exist.'')))"
    by (simp add: list_tags_for_resource_def n g)
qed

lemma validate_p: "validate_pipe_name ''p'' = Inr ()"
  by (simp add: validate_pipe_name_def PIPE_NAME_MAX_LENGTH_def PIPE_NAME_PATTERN_match_def
        name_char_def)

lemma not_arn_my_pipe: "\<not> is_pipe_arn ''my-pipe''"
  by (simp add: is_pipe_arn_def)

theorem malformed_arn_is_looked_up_as_name_witness:
  "\<not> is_pipe_arn ''my-pipe''
   \<and> pipes (initial_state :: unit provider_state) ''my-pipe'' = None
   \<and> pipe_name_from_arn ''my-pipe'' = ''my-pipe''
   \<and> tag_resource
        \<lparr>now = 5, ctx_account_id = ''000000000000'', ctx_region = ''us-east-1'',
         worker_start = Started, poller_defaults = id, worker_stop_ok = True\<rparr>
        (initial_state :: unit provider_state) ''my-pipe'' [(''k'', ''v'')]
       = (initial_state, Inl (NotFoundException ''Pipe my-pipe does not exist.''))"
proof -
  let ?env = "\<lparr>now = 5, ctx_account_id = ''000000000000'', ctx_region = ''us-east-1'',
         worker_start = Started, poller_defaults = id, worker_stop_ok = True\<rparr> :: unit call_env"
  let ?s = "initial_state :: unit provider_state"
  have n: "pipes ?s ''my-pipe'' = None" by (simp add: initial_state_def)
  from malformed_arn_is_looked_up_as_name[of "''my-pipe''" ?s ?env "[(''k'', ''v'')]" "[]"]
    not_arn_my_pipe n
  have "pipe_name_from_arn ''my-pipe'' = ''my-pipe''"
    and "tag_resource ?env ?s ''my-pipe'' [(''k'', ''v'')]
       = (?s, Inl (NotFoundException (''Pipe '' @ ''my-pipe'' @ '' does not exist.'')))"
    by blast+
  with not_arn_my_pipe n show ?thesis by simp
qed

subsection \<open>A registry with one pipe\<close>

lemma created_running:
  "(fst (create_pipe
       (\<lparr>now = 1, ctx_account_id = ''000000000000'', ctx_region = ''us-east-1'',
        worker_start = Started, poller_defaults = id, worker_stop_ok = True\<rparr> :: unit call_env) initial_state
       \<lparr>cr_name = ''p'', cr_source = ''arn:aws:sqs:us-east-1:000000000000:src'',
        cr_target = ''arn:aws:sqs:us-east-1:000000000000:dst'', cr_role_arn = ''role'',
        cr_description = None, cr_desired_state = None, cr_source_parameters = None,
        cr_enrichment = None, cr_enrichment_parameters = None,
        cr_target_parameters = None, cr_tags = None, cr_log_configuration = None,
        cr_kms_key_identifier = None\<rparr>))
   = \<lparr>pipes = [''p'' \<mapsto> \<lparr>name = ''p'', source = ''arn:aws:sqs:us-east-1:000000000000:src'',
        target = ''arn:aws:sqs:us-east-1:000000000000:dst'', role_arn = ''role'',
        region = ''us-east-1'', account_id = ''000000000000'', description = None,
        desired_state = ReqRUNNING, current_state = STARTING, state_reason = None,
        source_parameters = None, target_parameters = None, enrichment = None,
        enrichment_parameters = None, tags = None, log_configuration = None,
        kms_key_identifier = None, creation_time = 1, last_modified_time = 1\<rparr>],
      TAGS = Map.empty, pipe_workers = {''p''}\<rparr>"
  by (simp add: create_pipe_def validate_p initial_state_def Let_def start_pipe_worker_def stop_pipe_worker_def response_of_def arn_def pipe_arn_def)

lemma created_stopped:
  "(fst (create_pipe
       (\<lparr>now = 1, ctx_account_id = ''000000000000'', ctx_region = ''us-east-1'',
        worker_start = Started, poller_defaults = id, worker_stop_ok = True\<rparr> :: unit call_env) initial_state
       \<lparr>cr_name = ''p'', cr_source = ''arn:aws:sqs:us-east-1:000000000000:src'',
        cr_target = ''arn:aws:sqs:us-east-1:000000000000:dst'', cr_role_arn = ''role'',
        cr_description = None, cr_desired_state = (Some ReqSTOPPED), cr_source_parameters = None,
        cr_enrichment = None, cr_enrichment_parameters = None,
        cr_target_parameters = None, cr_tags = None, cr_log_configuration = None,
        cr_kms_key_identifier = None\<rparr>))
   = \<lparr>pipes = [''p'' \<mapsto> \<lparr>name = ''p'', source = ''arn:aws:sqs:us-east-1:000000000000:src'',
        target = ''arn:aws:sqs:us-east-1:000000000000:dst'', role_arn = ''role'',
        region = ''us-east-1'', account_id = ''000000000000'', description = None,
        desired_state = ReqSTOPPED, current_state = STOPPED, state_reason = None,
        source_parameters = None, target_parameters = None, enrichment = None,
        enrichment_parameters = None, tags = None, log_configuration = None,
        kms_key_identifier = None, creation_time = 1, last_modified_time = 1\<rparr>],
      TAGS = Map.empty, pipe_workers = {}\<rparr>"
  by (simp add: create_pipe_def validate_p initial_state_def Let_def start_pipe_worker_def stop_pipe_worker_def response_of_def arn_def pipe_arn_def)

theorem create_pipe_duplicate_conflict_witness:
  "reachable (fst (create_pipe
       (\<lparr>now = 1, ctx_account_id = ''000000000000'', ctx_region = ''us-east-1'',
        worker_start = Started, poller_defaults = id, worker_stop_ok = True\<rparr> :: unit call_env) initial_state
       \<lparr>cr_name = ''p'', cr_source = ''arn:aws:sqs:us-east-1:000000000000:src'',
        cr_target = ''arn:aws:sqs:us-east-1:000000000000:dst'', cr_role_arn = ''role'',
        cr_description = None, cr_desired_state = None, cr_source_parameters = None,
        cr_enrichment = None, cr_enrichment_parameters = None,
        cr_target_parameters = None, cr_tags = None, cr_log_configuration = None,
        cr_kms_key_identifier = None\<rparr>))
   \<and> pipes (fst (create_pipe
       (\<lparr>now = 1, ctx_account_id = ''000000000000'', ctx_region = ''us-east-1'',
        worker_start = Started, poller_defaults = id, worker_stop_ok = True\<rparr> :: unit call_env) initial_state
       \<lparr>cr_name = ''p'', cr_source = ''arn:aws:sqs:us-east-1:000000000000:src'',
        cr_target = ''arn:aws:sqs:us-east-1:000000000000:dst'', cr_role_arn = ''role'',
        cr_description = None, cr_desired_state = None, cr_source_parameters = None,
        cr_enrichment = None, cr_enrichment_parameters = None,
        cr_target_parameters = None, cr_tags = None, cr_log_configuration = None,
        cr_kms_key_identifier = None\<rparr>)) ''p''
       = Some \<lparr>name = ''p'', source = ''arn:aws:sqs:us-east-1:000000000000:src'',
        target = ''arn:aws:sqs:us-east-1:000000000000:dst'', role_arn = ''role'',
        region = ''us-east-1'', account_id = ''000000000000'', description = None,
        desired_state = ReqRUNNING, current_state = STARTING, state_reason = None,
        source_parameters = None, target_parameters = None, enrichment = None,
        enrichment_parameters = None, tags = None, log_configuration = None,
        kms_key_identifier = None, creation_time = 1, last_modified_time = 1\<rparr>
   \<and> create_pipe (\<lparr>now = 2, ctx_account_id = ''000000000000'', ctx_region = ''us-east-1'',
        worker_start = Started, poller_defaults = id, worker_stop_ok = True\<rparr> :: unit call_env)
        (fst (create_pipe
       (\<lparr>now = 1, ctx_account_id = ''000000000000'', ctx_region = ''us-east-1'',
        worker_start = Started, poller_defaults = id, worker_stop_ok = True\<rparr> :: unit call_env) initial_state
       \<lparr>cr_name = ''p'', cr_source = ''arn:aws:sqs:us-east-1:000000000000:src'',
        cr_target = ''arn:aws:sqs:us-east-1:000000000000:dst'', cr_role_arn = ''role'',
        cr_description = None, cr_desired_state = None, cr_source_parameters = None,
        cr_enrichment = None, cr_enrichment_parameters = None,
        cr_target_parameters = None, cr_tags = None, cr_log_configuration = None,
        cr_kms_key_identifier = None\<rparr>))
        \<lparr>cr_name = ''p'', cr_source = ''arn:aws:sqs:us-east-1:000000000000:src'',
        cr_target = ''arn:aws:sqs:us-east-1:000000000000:dst'', cr_role_arn = ''role'',
        cr_description = None, cr_desired_state = (Some ReqSTOPPED), cr_source_parameters = None,
        cr_enrichment = None, cr_enrichment_parameters = None,
        cr_target_parameters = None, cr_tags = None, cr_log_configuration = None,
        cr_kms_key_identifier = None\<rparr>
     = ((fst (create_pipe
       (\<lparr>now = 1, ctx_account_id = ''000000000000'', ctx_region = ''us-east-1'',
        worker_start = Started, poller_defaults = id, worker_stop_ok = True\<rparr> :: unit call_env) initial_state
       \<lparr>cr_name = ''p'', cr_source = ''arn:aws:sqs:us-east-1:000000000000:src'',
        cr_target = ''arn:aws:sqs:us-east-1:000000000000:dst'', cr_role_arn = ''role'',
        cr_description = None, cr_desired_state = None, cr_source_parameters = None,
        cr_enrichment = None, cr_enrichment_parameters = None,
        cr_target_parameters = None, cr_tags = None, cr_log_configuration = None,
        cr_kms_key_identifier = None\<rparr>)),
        Inl (ConflictException ''Pipe p already exists.'' ''p'' ''pipe''))"
proof -
  let ?s0 = "(fst (create_pipe
       (\<lparr>now = 1, ctx_account_id = ''000000000000'', ctx_region = ''us-east-1'',
        worker_start = Started, poller_defaults = id, worker_stop_ok = True\<rparr> :: unit call_env) initial_state
       \<lparr>cr_name = ''p'', cr_source = ''arn:aws:sqs:us-east-1:000000000000:src'',
        cr_target = ''arn:aws:sqs:us-east-1:000000000000:dst'', cr_role_arn = ''role'',
        cr_description = None, cr_desired_state = None, cr_source_parameters = None,
        cr_enrichment = None, cr_enrichment_parameters = None,
        cr_target_parameters = None, cr_tags = None, cr_log_configuration = None,
        cr_kms_key_identifier = None\<rparr>))"
  let ?p = "\<lparr>name = ''p'', source = ''arn:aws:sqs:us-east-1:000000000000:src'',
        target = ''arn:aws:sqs:us-east-1:000000000000:dst'', role_arn = ''role'',
        region = ''us-east-1'', account_id = ''000000000000'', description = None,
        desired_state = ReqRUNNING, current_state = STARTING, state_reason = None,
        source_parameters = None, target_parameters = None, enrichment = None,
        enrichment_parameters = None, tags = None, log_configuration = None,
        kms_key_identifier = None, creation_time = 1, last_modified_time = 1\<rparr> :: unit pipe_entity"
  let ?env2 = "\<lparr>now = 2, ctx_account_id = ''000000000000'', ctx_region = ''us-east-1'',
        worker_start = Started, poller_defaults = id, worker_stop_ok = True\<rparr> :: unit call_env"
  let ?rq = "\<lparr>cr_name = ''p'', cr_source = ''arn:aws:sqs:us-east-1:000000000000:src'',
        cr_target = ''arn:aws:sqs:us-east-1:000000000000:dst'', cr_role_arn = ''role'',
        cr_description = None, cr_desired_state = (Some ReqSTOPPED), cr_source_parameters = None,
        cr_enrichment = None, cr_enrichment_parameters = None,
        cr_target_parameters = None, cr_tags = None, cr_log_configuration = None,
        cr_kms_key_identifier = None\<rparr> :: unit create_pipe_request"
  have r: "reachable ?s0" by (rule r_create[OF r_init])
  have p: "pipes ?s0 (cr_name ?rq) = Some ?p" unfolding created_running by simp
  have p': "pipes ?s0 ''p'' = Some ?p" using p by simp
  from create_pipe_duplicate_conflict[OF r p, of ?env2]
  have "snd (create_pipe ?env2 ?s0 ?rq)
           = Inl (ConflictException ''Pipe p already exists.'' ''p'' ''pipe'')"
    and "fst (create_pipe ?env2 ?s0 ?rq) = ?s0" by simp_all
  then have c: "create_pipe ?env2 ?s0 ?rq
     = (?s0, Inl (ConflictException ''Pipe p already exists.'' ''p'' ''pipe''))"
    by (metis prod.collapse)
  show ?thesis by (rule conjI[OF r conjI[OF p' c]])
qed

theorem start_stop_conflict_iff_desired_state_witness:
  "pipes (fst (create_pipe
       (\<lparr>now = 1, ctx_account_id = ''000000000000'', ctx_region = ''us-east-1'',
        worker_start = Started, poller_defaults = id, worker_stop_ok = True\<rparr> :: unit call_env) initial_state
       \<lparr>cr_name = ''p'', cr_source = ''arn:aws:sqs:us-east-1:000000000000:src'',
        cr_target = ''arn:aws:sqs:us-east-1:000000000000:dst'', cr_role_arn = ''role'',
        cr_description = None, cr_desired_state = None, cr_source_parameters = None,
        cr_enrichment = None, cr_enrichment_parameters = None,
        cr_target_parameters = None, cr_tags = None, cr_log_configuration = None,
        cr_kms_key_identifier = None\<rparr>)) ''p''
       = Some \<lparr>name = ''p'', source = ''arn:aws:sqs:us-east-1:000000000000:src'',
        target = ''arn:aws:sqs:us-east-1:000000000000:dst'', role_arn = ''role'',
        region = ''us-east-1'', account_id = ''000000000000'', description = None,
        desired_state = ReqRUNNING, current_state = STARTING, state_reason = None,
        source_parameters = None, target_parameters = None, enrichment = None,
        enrichment_parameters = None, tags = None, log_configuration = None,
        kms_key_identifier = None, creation_time = 1, last_modified_time = 1\<rparr>
   \<and> start_pipe (\<lparr>now = 2, ctx_account_id = ''000000000000'', ctx_region = ''us-east-1'',
        worker_start = Started, poller_defaults = id, worker_stop_ok = True\<rparr> :: unit call_env)
        (fst (create_pipe
       (\<lparr>now = 1, ctx_account_id = ''000000000000'', ctx_region = ''us-east-1'',
        worker_start = Started, poller_defaults = id, worker_stop_ok = True\<rparr> :: unit call_env) initial_state
       \<lparr>cr_name = ''p'', cr_source = ''arn:aws:sqs:us-east-1:000000000000:src'',
        cr_target = ''arn:aws:sqs:us-east-1:000000000000:dst'', cr_role_arn = ''role'',
        cr_description = None, cr_desired_state = None, cr_source_parameters = None,
        cr_enrichment = None, cr_enrichment_parameters = None,
        cr_target_parameters = None, cr_tags = None, cr_log_configuration = None,
        cr_kms_key_identifier = None\<rparr>)) ''p''
     = ((fst (create_pipe
       (\<lparr>now = 1, ctx_account_id = ''000000000000'', ctx_region = ''us-east-1'',
        worker_start = Started, poller_defaults = id, worker_stop_ok = True\<rparr> :: unit call_env) initial_state
       \<lparr>cr_name = ''p'', cr_source = ''arn:aws:sqs:us-east-1:000000000000:src'',
        cr_target = ''arn:aws:sqs:us-east-1:000000000000:dst'', cr_role_arn = ''role'',
        cr_description = None, cr_desired_state = None, cr_source_parameters = None,
        cr_enrichment = None, cr_enrichment_parameters = None,
        cr_target_parameters = None, cr_tags = None, cr_log_configuration = None,
        cr_kms_key_identifier = None\<rparr>)),
        Inl (ConflictException ''Pipe p is already in the desired state RUNNING.'' ''p'' ''pipe''))
   \<and> snd (stop_pipe (\<lparr>now = 2, ctx_account_id = ''000000000000'', ctx_region = ''us-east-1'',
        worker_start = Started, poller_defaults = id, worker_stop_ok = True\<rparr> :: unit call_env)
        (fst (create_pipe
       (\<lparr>now = 1, ctx_account_id = ''000000000000'', ctx_region = ''us-east-1'',
        worker_start = Started, poller_defaults = id, worker_stop_ok = True\<rparr> :: unit call_env) initial_state
       \<lparr>cr_name = ''p'', cr_source = ''arn:aws:sqs:us-east-1:000000000000:src'',
        cr_target = ''arn:aws:sqs:us-east-1:000000000000:dst'', cr_role_arn = ''role'',
        cr_description = None, cr_desired_state = None, cr_source_parameters = None,
        cr_enrichment = None, cr_enrichment_parameters = None,
        cr_target_parameters = None, cr_tags = None, cr_log_configuration = None,
        cr_kms_key_identifier = None\<rparr>)) ''p'')
     = Inr \<lparr>Arn = ''arn:aws:pipes:us-east-1:000000000000:pipe/p'', Name = ''p'',
             DesiredState = ReqSTOPPED, CurrentState = STOPPED, CreationTime = 1,
             LastModifiedTime = 2\<rparr>"
proof -
  let ?s0 = "(fst (create_pipe
       (\<lparr>now = 1, ctx_account_id = ''000000000000'', ctx_region = ''us-east-1'',
        worker_start = Started, poller_defaults = id, worker_stop_ok = True\<rparr> :: unit call_env) initial_state
       \<lparr>cr_name = ''p'', cr_source = ''arn:aws:sqs:us-east-1:000000000000:src'',
        cr_target = ''arn:aws:sqs:us-east-1:000000000000:dst'', cr_role_arn = ''role'',
        cr_description = None, cr_desired_state = None, cr_source_parameters = None,
        cr_enrichment = None, cr_enrichment_parameters = None,
        cr_target_parameters = None, cr_tags = None, cr_log_configuration = None,
        cr_kms_key_identifier = None\<rparr>))"
  let ?p = "\<lparr>name = ''p'', source = ''arn:aws:sqs:us-east-1:000000000000:src'',
        target = ''arn:aws:sqs:us-east-1:000000000000:dst'', role_arn = ''role'',
        region = ''us-east-1'', account_id = ''000000000000'', description = None,
        desired_state = ReqRUNNING, current_state = STARTING, state_reason = None,
        source_parameters = None, target_parameters = None, enrichment = None,
        enrichment_parameters = None, tags = None, log_configuration = None,
        kms_key_identifier = None, creation_time = 1, last_modified_time = 1\<rparr> :: unit pipe_entity"
  let ?env2 = "\<lparr>now = 2, ctx_account_id = ''000000000000'', ctx_region = ''us-east-1'',
        worker_start = Started, poller_defaults = id, worker_stop_ok = True\<rparr> :: unit call_env"
  have p: "pipes ?s0 ''p'' = Some ?p" unfolding created_running by simp
  have d: "desired_state ?p = ReqRUNNING" by simp
  note t = start_stop_conflict_iff_desired_state[OF p, of ?env2]
  from t d have u: "fst (start_pipe ?env2 ?s0 ''p'') = ?s0" by blast
  from t d obtain m r x where "snd (start_pipe ?env2 ?s0 ''p'') = Inl (ConflictException m r x)"
    by blast
  have e: "snd (start_pipe ?env2 ?s0 ''p'')
     = Inl (ConflictException ''Pipe p is already in the desired state RUNNING.'' ''p'' ''pipe'')"
    unfolding created_running by (simp add: start_pipe_def get_pipe_def)
  from u e have c: "start_pipe ?env2 ?s0 ''p''
     = (?s0, Inl (ConflictException ''Pipe p is already in the desired state RUNNING.'' ''p'' ''pipe''))"
    by (metis prod.collapse)
  have st: "snd (stop_pipe ?env2 ?s0 ''p'')
     = Inr \<lparr>Arn = ''arn:aws:pipes:us-east-1:000000000000:pipe/p'', Name = ''p'',
             DesiredState = ReqSTOPPED, CurrentState = STOPPED, CreationTime = 1,
             LastModifiedTime = 2\<rparr>"
    unfolding created_running
    by (simp add: stop_pipe_def get_pipe_def Let_def stop_pipe_worker_def response_of_def
          arn_def pipe_arn_def)
  show ?thesis by (rule conjI[OF p conjI[OF c st]])
qed

lemma match_arn_p: "match_pipe_arn ''arn:aws:pipes:us-east-1:000000000000:pipe/p'' = Some ''p''"
  by (simp add: match_pipe_arn_def)

lemma start_pipe_worker_lmt:
  "last_modified_time (snd (start_pipe_worker env w p)) = last_modified_time p"
  by (simp add: start_pipe_worker_def Let_def split: worker_start.splits)

lemma stop_pipe_worker_lmt:
  "last_modified_time (snd (stop_pipe_worker env w p)) = last_modified_time p"
  by (simp add: stop_pipe_worker_def)

lemma create_pipe_lmt:
  assumes "snd (create_pipe env s rq) = Inr r"
  shows "LastModifiedTime r = now env
       \<and> map_option last_modified_time (pipes (fst (create_pipe env s rq)) (cr_name rq))
           = Some (now env)"
  using assms
  by (auto simp: create_pipe_def Let_def split_beta response_of_def start_pipe_worker_lmt
           split: sum.splits if_splits)

lemma update_pipe_lmt:
  assumes "snd (update_pipe env s rq) = Inr r"
  shows "LastModifiedTime r = now env
       \<and> map_option last_modified_time (pipes (fst (update_pipe env s rq)) (up_name rq))
           = Some (now env)"
  using assms
  by (auto simp: update_pipe_def Let_def split_beta response_of_def start_pipe_worker_lmt
           split: sum.splits if_splits)

lemma start_pipe_lmt:
  assumes "snd (start_pipe env s nm) = Inr r"
  shows "LastModifiedTime r = now env
       \<and> map_option last_modified_time (pipes (fst (start_pipe env s nm)) nm) = Some (now env)"
  using assms
  by (auto simp: start_pipe_def Let_def split_beta response_of_def start_pipe_worker_lmt
           split: sum.splits if_splits)

lemma stop_pipe_lmt:
  assumes "snd (stop_pipe env s nm) = Inr r"
  shows "LastModifiedTime r = now env
       \<and> map_option last_modified_time (pipes (fst (stop_pipe env s nm)) nm) = Some (now env)"
  using assms
  by (auto simp: stop_pipe_def Let_def split_beta response_of_def stop_pipe_worker_lmt
           split: sum.splits if_splits)

lemma delete_pipe_lmt:
  assumes "snd (delete_pipe env s nm) = Inr r"
  shows "LastModifiedTime r = now env \<and> pipes (fst (delete_pipe env s nm)) nm = None"
  using assms
  by (auto simp: delete_pipe_def Let_def split_beta response_of_def
           split: sum.splits if_splits)

text \<open>The two tagging operations write the tags of the entity and nothing else of it.\<close>

lemma tag_resource_lmt:
  assumes "snd (tag_resource env s a tgs) = Inr u"
  shows "pipes s (pipe_name_from_arn a) \<noteq> None
       \<and> map_option last_modified_time (pipes (fst (tag_resource env s a tgs)) (pipe_name_from_arn a))
           = map_option last_modified_time (pipes s (pipe_name_from_arn a))"
  using assms
  by (auto simp: tag_resource_def Let_def get_pipe_def split: option.splits)

lemma untag_resource_lmt:
  assumes "snd (untag_resource env s a ks) = Inr u"
  shows "pipes s (pipe_name_from_arn a) \<noteq> None
       \<and> map_option last_modified_time (pipes (fst (untag_resource env s a ks)) (pipe_name_from_arn a))
           = map_option last_modified_time (pipes s (pipe_name_from_arn a))"
  using assms
  by (auto simp: untag_resource_def Let_def get_pipe_def split: option.splits)

text \<open>
  C4, as stated, fails for the tagging operations: a pipe created at time 1 and tagged at
  time 2 has its tags changed and its \<open>last_modified_time\<close> still 1.
\<close>

theorem tag_resource_keeps_last_modified_time_counterexample:
  "map_option last_modified_time
     (pipes (fst (create_pipe
       (\<lparr>now = 1, ctx_account_id = ''000000000000'', ctx_region = ''us-east-1'',
        worker_start = Started, poller_defaults = id, worker_stop_ok = True\<rparr> :: unit call_env) initial_state
       \<lparr>cr_name = ''p'', cr_source = ''arn:aws:sqs:us-east-1:000000000000:src'',
        cr_target = ''arn:aws:sqs:us-east-1:000000000000:dst'', cr_role_arn = ''role'',
        cr_description = None, cr_desired_state = None, cr_source_parameters = None,
        cr_enrichment = None, cr_enrichment_parameters = None,
        cr_target_parameters = None, cr_tags = None, cr_log_configuration = None,
        cr_kms_key_identifier = None\<rparr>)) ''p'') = Some 1
   \<and> snd (tag_resource (\<lparr>now = 2, ctx_account_id = ''000000000000'', ctx_region = ''us-east-1'',
        worker_start = Started, poller_defaults = id, worker_stop_ok = True\<rparr> :: unit call_env)
        (fst (create_pipe
       (\<lparr>now = 1, ctx_account_id = ''000000000000'', ctx_region = ''us-east-1'',
        worker_start = Started, poller_defaults = id, worker_stop_ok = True\<rparr> :: unit call_env) initial_state
       \<lparr>cr_name = ''p'', cr_source = ''arn:aws:sqs:us-east-1:000000000000:src'',
        cr_target = ''arn:aws:sqs:us-east-1:000000000000:dst'', cr_role_arn = ''role'',
        cr_description = None, cr_desired_state = None, cr_source_parameters = None,
        cr_enrichment = None, cr_enrichment_parameters = None,
        cr_target_parameters = None, cr_tags = None, cr_log_configuration = None,
        cr_kms_key_identifier = None\<rparr>))
        ''arn:aws:pipes:us-east-1:000000000000:pipe/p'' [(''k'', ''v'')]) = Inr ()
   \<and> map_option tags
       (pipes (fst (tag_resource (\<lparr>now = 2, ctx_account_id = ''000000000000'', ctx_region = ''us-east-1'',
        worker_start = Started, poller_defaults = id, worker_stop_ok = True\<rparr> :: unit call_env)
        (fst (create_pipe
       (\<lparr>now = 1, ctx_account_id = ''000000000000'', ctx_region = ''us-east-1'',
        worker_start = Started, poller_defaults = id, worker_stop_ok = True\<rparr> :: unit call_env) initial_state
       \<lparr>cr_name = ''p'', cr_source = ''arn:aws:sqs:us-east-1:000000000000:src'',
        cr_target = ''arn:aws:sqs:us-east-1:000000000000:dst'', cr_role_arn = ''role'',
        cr_description = None, cr_desired_state = None, cr_source_parameters = None,
        cr_enrichment = None, cr_enrichment_parameters = None,
        cr_target_parameters = None, cr_tags = None, cr_log_configuration = None,
        cr_kms_key_identifier = None\<rparr>))
        ''arn:aws:pipes:us-east-1:000000000000:pipe/p'' [(''k'', ''v'')])) ''p'') = Some (Some [(''k'', ''v'')])
   \<and> map_option last_modified_time
       (pipes (fst (tag_resource (\<lparr>now = 2, ctx_account_id = ''000000000000'', ctx_region = ''us-east-1'',
        worker_start = Started, poller_defaults = id, worker_stop_ok = True\<rparr> :: unit call_env)
        (fst (create_pipe
       (\<lparr>now = 1, ctx_account_id = ''000000000000'', ctx_region = ''us-east-1'',
        worker_start = Started, poller_defaults = id, worker_stop_ok = True\<rparr> :: unit call_env) initial_state
       \<lparr>cr_name = ''p'', cr_source = ''arn:aws:sqs:us-east-1:000000000000:src'',
        cr_target = ''arn:aws:sqs:us-east-1:000000000000:dst'', cr_role_arn = ''role'',
        cr_description = None, cr_desired_state = None, cr_source_parameters = None,
        cr_enrichment = None, cr_enrichment_parameters = None,
        cr_target_parameters = None, cr_tags = None, cr_log_configuration = None,
        cr_kms_key_identifier = None\<rparr>))
        ''arn:aws:pipes:us-east-1:000000000000:pipe/p'' [(''k'', ''v'')])) ''p'') = Some 1
   \<and> map_option last_modified_time
       (pipes (fst (tag_resource (\<lparr>now = 2, ctx_account_id = ''000000000000'', ctx_region = ''us-east-1'',
        worker_start = Started, poller_defaults = id, worker_stop_ok = True\<rparr> :: unit call_env)
        (fst (create_pipe
       (\<lparr>now = 1, ctx_account_id = ''000000000000'', ctx_region = ''us-east-1'',
        worker_start = Started, poller_defaults = id, worker_stop_ok = True\<rparr> :: unit call_env) initial_state
       \<lparr>cr_name = ''p'', cr_source = ''arn:aws:sqs:us-east-1:000000000000:src'',
        cr_target = ''arn:aws:sqs:us-east-1:000000000000:dst'', cr_role_arn = ''role'',
        cr_description = None, cr_desired_state = None, cr_source_parameters = None,
        cr_enrichment = None, cr_enrichment_parameters = None,
        cr_target_parameters = None, cr_tags = None, cr_log_configuration = None,
        cr_kms_key_identifier = None\<rparr>))
        ''arn:aws:pipes:us-east-1:000000000000:pipe/p'' [(''k'', ''v'')])) ''p'')
      \<noteq> Some (now (\<lparr>now = 2, ctx_account_id = ''000000000000'', ctx_region = ''us-east-1'',
        worker_start = Started, poller_defaults = id, worker_stop_ok = True\<rparr> :: unit call_env))"
  unfolding created_running
  by (simp add: tag_resource_def pipe_name_from_arn_def match_arn_p get_pipe_def Let_def
        dict_update_def dict_set_def)

text \<open>
  C4, amended. Every successful create, update, start and stop leaves the entity with
  \<open>last_modified_time\<close> equal to the time of the call, and returns that time; a
  successful delete returns it for the entity it removes.
\<close>

theorem lifecycle_operations_set_last_modified_time:
  "(\<forall>r. snd (create_pipe env s rq) = Inr r \<longrightarrow>
        LastModifiedTime r = now env
        \<and> map_option last_modified_time (pipes (fst (create_pipe env s rq)) (cr_name rq))
            = Some (now env))
   \<and> (\<forall>r. snd (update_pipe env s urq) = Inr r \<longrightarrow>
        LastModifiedTime r = now env
        \<and> map_option last_modified_time (pipes (fst (update_pipe env s urq)) (up_name urq))
            = Some (now env))
   \<and> (\<forall>r. snd (delete_pipe env s nm) = Inr r \<longrightarrow>
        LastModifiedTime r = now env \<and> pipes (fst (delete_pipe env s nm)) nm = None)
   \<and> (\<forall>r. snd (start_pipe env s nm) = Inr r \<longrightarrow>
        LastModifiedTime r = now env
        \<and> map_option last_modified_time (pipes (fst (start_pipe env s nm)) nm) = Some (now env))
   \<and> (\<forall>r. snd (stop_pipe env s nm) = Inr r \<longrightarrow>
        LastModifiedTime r = now env
        \<and> map_option last_modified_time (pipes (fst (stop_pipe env s nm)) nm) = Some (now env))"
  using create_pipe_lmt[of env s rq] update_pipe_lmt[of env s urq] delete_pipe_lmt[of env s nm]
    start_pipe_lmt[of env s nm] stop_pipe_lmt[of env s nm]
  by (intro conjI allI impI) blast+

theorem lifecycle_operations_set_last_modified_time_witness:
  "snd (stop_pipe (\<lparr>now = 2, ctx_account_id = ''000000000000'', ctx_region = ''us-east-1'',
        worker_start = Started, poller_defaults = id, worker_stop_ok = True\<rparr> :: unit call_env)
        (fst (create_pipe
       (\<lparr>now = 1, ctx_account_id = ''000000000000'', ctx_region = ''us-east-1'',
        worker_start = Started, poller_defaults = id, worker_stop_ok = True\<rparr> :: unit call_env) initial_state
       \<lparr>cr_name = ''p'', cr_source = ''arn:aws:sqs:us-east-1:000000000000:src'',
        cr_target = ''arn:aws:sqs:us-east-1:000000000000:dst'', cr_role_arn = ''role'',
        cr_description = None, cr_desired_state = None, cr_source_parameters = None,
        cr_enrichment = None, cr_enrichment_parameters = None,
        cr_target_parameters = None, cr_tags = None, cr_log_configuration = None,
        cr_kms_key_identifier = None\<rparr>)) ''p'')
     = Inr \<lparr>Arn = ''arn:aws:pipes:us-east-1:000000000000:pipe/p'', Name = ''p'',
             DesiredState = ReqSTOPPED, CurrentState = STOPPED, CreationTime = 1,
             LastModifiedTime = 2\<rparr>
   \<and> map_option last_modified_time
       (pipes (fst (stop_pipe (\<lparr>now = 2, ctx_account_id = ''000000000000'', ctx_region = ''us-east-1'',
        worker_start = Started, poller_defaults = id, worker_stop_ok = True\<rparr> :: unit call_env)
        (fst (create_pipe
       (\<lparr>now = 1, ctx_account_id = ''000000000000'', ctx_region = ''us-east-1'',
        worker_start = Started, poller_defaults = id, worker_stop_ok = True\<rparr> :: unit call_env) initial_state
       \<lparr>cr_name = ''p'', cr_source = ''arn:aws:sqs:us-east-1:000000000000:src'',
        cr_target = ''arn:aws:sqs:us-east-1:000000000000:dst'', cr_role_arn = ''role'',
        cr_description = None, cr_desired_state = None, cr_source_parameters = None,
        cr_enrichment = None, cr_enrichment_parameters = None,
        cr_target_parameters = None, cr_tags = None, cr_log_configuration = None,
        cr_kms_key_identifier = None\<rparr>)) ''p'')) ''p'') = Some 2"
proof -
  let ?s0 = "(fst (create_pipe
       (\<lparr>now = 1, ctx_account_id = ''000000000000'', ctx_region = ''us-east-1'',
        worker_start = Started, poller_defaults = id, worker_stop_ok = True\<rparr> :: unit call_env) initial_state
       \<lparr>cr_name = ''p'', cr_source = ''arn:aws:sqs:us-east-1:000000000000:src'',
        cr_target = ''arn:aws:sqs:us-east-1:000000000000:dst'', cr_role_arn = ''role'',
        cr_description = None, cr_desired_state = None, cr_source_parameters = None,
        cr_enrichment = None, cr_enrichment_parameters = None,
        cr_target_parameters = None, cr_tags = None, cr_log_configuration = None,
        cr_kms_key_identifier = None\<rparr>))"
  let ?env2 = "\<lparr>now = 2, ctx_account_id = ''000000000000'', ctx_region = ''us-east-1'',
        worker_start = Started, poller_defaults = id, worker_stop_ok = True\<rparr> :: unit call_env"
  let ?r = "\<lparr>Arn = ''arn:aws:pipes:us-east-1:000000000000:pipe/p'', Name = ''p'',
             DesiredState = ReqSTOPPED, CurrentState = STOPPED, CreationTime = 1,
             LastModifiedTime = 2\<rparr>"
  have st: "snd (stop_pipe ?env2 ?s0 ''p'') = Inr ?r"
    unfolding created_running
    by (simp add: stop_pipe_def get_pipe_def Let_def stop_pipe_worker_def response_of_def
          arn_def pipe_arn_def)
  from lifecycle_operations_set_last_modified_time
         [of ?env2 ?s0 _ _ "''p''", THEN conjunct2, THEN conjunct2, THEN conjunct2,
          THEN conjunct2, rule_format, OF st]
  have "map_option last_modified_time (pipes (fst (stop_pipe ?env2 ?s0 ''p'')) ''p'')
          = Some (now ?env2)" by (rule conjunct2)
  then have l: "map_option last_modified_time (pipes (fst (stop_pipe ?env2 ?s0 ''p'')) ''p'')
          = Some 2" by simp
  show ?thesis by (rule conjI[OF st l])
qed

section \<open>\<^verbatim>\<open>targets/api_destination_target.py\<close>: the HTTP destination\<close>

text \<open>\<^verbatim>\<open>str.split(sep)\<close> for a separator of one character.\<close>

fun split_on :: "char \<Rightarrow> string \<Rightarrow> string list" where
  "split_on sep [] = [[]]"
| "split_on sep (c # cs) =
     (if c = sep then [] # split_on sep cs
      else (case split_on sep cs of
              w # ws \<Rightarrow> (c # w) # ws
            | [] \<Rightarrow> [[c]]))"
















section \<open>\<^verbatim>\<open>targets/input_transformer.py\<close>: the input template\<close>

text \<open>
  Strings are lists of characters with code points below 256. \<^verbatim>\<open>str.strip()\<close>
  removes the characters for which \<^verbatim>\<open>str.isspace\<close> holds: in that range the code
  points 9 to 13, 28 to 32, 133 and 160.
\<close>

definition is_space :: "char \<Rightarrow> bool" where
  "is_space c =
     (let n = (of_char c :: nat)
      in (9 \<le> n \<and> n \<le> 13) \<or> (28 \<le> n \<and> n \<le> 32) \<or> n = 133 \<or> n = 160)"

definition py_strip :: "string \<Rightarrow> string" where
  "py_strip s = rev (dropWhile is_space (rev (dropWhile is_space s)))"

definition startswith :: "string \<Rightarrow> string \<Rightarrow> bool" where
  "startswith s p = (take (length p) s = p)"

text \<open>
  \<^verbatim>\<open>PIPE_PLACEHOLDER_PATTERN = re.compile(r"<(.*?)>")\<close>. A match that starts at a
  \<^verbatim>\<open><\<close> runs to the first \<^verbatim>\<open>>\<close> after it, and exists only when no newline
  comes before that \<^verbatim>\<open>>\<close> (the dot does not match a newline); \<open>find_close\<close> gives
  the group and the text after the match. \<open>placeholder_tokens\<close> is the scan that
  \<^verbatim>\<open>findall\<close> and \<^verbatim>\<open>sub\<close> share: the matches from left to right, without
  overlap, and the characters between them.
\<close>

fun find_close :: "string \<Rightarrow> (string \<times> string) option" where
  "find_close [] = None"
| "find_close (c # cs) =
     (if c = CHR ''>'' then Some ([], cs)
      else if c = CHR 0x0A then None
      else (case find_close cs of None \<Rightarrow> None | Some (k, r) \<Rightarrow> Some (c # k, r)))"

datatype token = Lit char | Placeholder string

lemma find_close_length: "find_close cs = Some (k, r) \<Longrightarrow> length r < length cs"
  by (induction cs arbitrary: k r) (auto split: if_splits option.splits)

function placeholder_tokens :: "string \<Rightarrow> token list" where
  "placeholder_tokens [] = []"
| "placeholder_tokens (c # cs) =
     (if c = CHR ''<''
      then (case find_close cs of
              Some (k, r) \<Rightarrow> Placeholder k # placeholder_tokens r
            | None \<Rightarrow> Lit c # placeholder_tokens cs)
      else Lit c # placeholder_tokens cs)"
  by pat_completeness auto
termination
  by (relation "measure length") (auto dest: find_close_length)

definition PIPE_PLACEHOLDER_PATTERN_findall :: "string \<Rightarrow> string list" where
  "PIPE_PLACEHOLDER_PATTERN_findall s =
     concat (map (\<lambda>t. case t of Lit c \<Rightarrow> [] | Placeholder k \<Rightarrow> [k]) (placeholder_tokens s))"

text \<open>
  \<^verbatim>\<open>PIPE_PLACEHOLDER_PATTERN.sub(repl, s)\<close> with a function \<open>repl\<close> that may raise:
  the function is called on the matches from left to right, and the first exception it
  raises leaves \<^verbatim>\<open>sub\<close>.
\<close>

fun sub_tokens :: "(string \<Rightarrow> py_exn + string) \<Rightarrow> token list \<Rightarrow> py_exn + string" where
  "sub_tokens repl [] = Inr []"
| "sub_tokens repl (Lit c # ts) =
     (case sub_tokens repl ts of Inl e \<Rightarrow> Inl e | Inr r \<Rightarrow> Inr (c # r))"
| "sub_tokens repl (Placeholder k # ts) =
     (case repl k of
        Inl e \<Rightarrow> Inl e
      | Inr s \<Rightarrow> (case sub_tokens repl ts of Inl e \<Rightarrow> Inl e | Inr r \<Rightarrow> Inr (s @ r)))"

definition PIPE_PLACEHOLDER_PATTERN_sub ::
  "(string \<Rightarrow> py_exn + string) \<Rightarrow> string \<Rightarrow> py_exn + string"
where
  "PIPE_PLACEHOLDER_PATTERN_sub repl s = sub_tokens repl (placeholder_tokens s)"

text \<open>
  \<^verbatim>\<open>fullmatch\<close>: the whole string is one match, so the lazy group is extended until
  the closing \<^verbatim>\<open>>\<close> is the last character; the group may then hold a \<^verbatim>\<open>>\<close>.
\<close>

definition PIPE_PLACEHOLDER_PATTERN_fullmatch :: "string \<Rightarrow> string option" where
  "PIPE_PLACEHOLDER_PATTERN_fullmatch s =
     (case s of
        [] \<Rightarrow> None
      | c # cs \<Rightarrow>
          if c = CHR ''<'' \<and> cs \<noteq> [] \<and> last cs = CHR ''>'' \<and> CHR 0x0A \<notin> set (butlast cs)
          then Some (butlast cs) else None)"

text \<open>The loop of \<^verbatim>\<open>_extract_jsonpath\<close> over the keys of the path.\<close>

fun walk_keys :: "'n pyval \<Rightarrow> string list \<Rightarrow> 'n pyval" where
  "walk_keys current [] = current"
| "walk_keys current (key # keys) =
     (case current of
        PDict d \<Rightarrow> walk_keys (dict_get d key (PStr [])) keys
      | _ \<Rightarrow> PStr [])"

definition extract_jsonpath :: "'n event \<Rightarrow> string \<Rightarrow> 'n pyval" where
  "extract_jsonpath event path =
     (if \<not> startswith path ''$.'' then PStr []
      else walk_keys (PDict event) (split_on CHR ''.'' (drop 2 path)))"

text \<open>
  The attributes of the transformer. The time of ingestion
  (\<^verbatim>\<open>datetime.now(UTC).isoformat()\<close>) is an argument of the model, \<open>now_iso\<close>.
\<close>

record PipeInputTransformer =
  input_template :: string
  tr_pipe_arn :: string
  tr_pipe_name :: string
  tr_source_arn :: string
  tr_target_arn :: string

definition build_replacements ::
  "PipeInputTransformer \<Rightarrow> string \<Rightarrow> 'n event \<Rightarrow> (string \<times> 'n pyval) list"
where
  "build_replacements self now_iso event =
     foldl (\<lambda>replacements placeholder.
              if startswith placeholder ''$.''
              then dict_set replacements placeholder (extract_jsonpath event placeholder)
              else replacements)
       [(''aws.pipes.pipe-arn'', PStr (tr_pipe_arn self)),
        (''aws.pipes.pipe-name'', PStr (tr_pipe_name self)),
        (''aws.pipes.source-arn'', PStr (tr_source_arn self)),
        (''aws.pipes.target-arn'', PStr (tr_target_arn self)),
        (''aws.pipes.event.ingestion-time'', PStr now_iso),
        (''aws.pipes.event.json'', PDict event),
        (''aws.pipes.event'', PDict event)]
       (PIPE_PLACEHOLDER_PATTERN_findall (input_template self))"

text \<open>
  Library functions the transformer calls: \<^verbatim>\<open>to_json_str\<close> (of
  \<^verbatim>\<open>pipe_utils\<close>), \<^verbatim>\<open>json.dumps\<close> and \<^verbatim>\<open>str\<close> on a number, each of which
  returns a text or raises (\<^verbatim>\<open>RecursionError\<close> on deep nesting,
  \<^verbatim>\<open>ValueError\<close> on an integer of more than 4300 digits), and \<^verbatim>\<open>json.loads\<close>.
\<close>

record 'n json_library =
  to_json_str :: "'n pyval \<Rightarrow> py_exn + string"
  json_dumps :: "'n pyval \<Rightarrow> py_exn + string"
  json_loads :: "string \<Rightarrow> 'n loads_outcome"
  str_of_number :: "'n \<Rightarrow> py_exn + string"

text \<open>
  The body of \<^verbatim>\<open>replace_match\<close> after the lookup: the tests on the type of the value
  in the order of the source; \<^verbatim>\<open>str\<close> of a string is the string and of
  \<^verbatim>\<open>None\<close> the text None.
\<close>

fun value_text :: "'n json_library \<Rightarrow> 'n pyval \<Rightarrow> py_exn + string" where
  "value_text lib (PDict d) = to_json_str lib (PDict d)"
| "value_text lib (PList l) = json_dumps lib (PList l)"
| "value_text lib (PBool b) = json_dumps lib (PBool b)"
| "value_text lib (PStr s) = Inr s"
| "value_text lib PNone = Inr ''None''"
| "value_text lib (PNum n) = str_of_number lib n"

definition replace_match ::
  "'n json_library \<Rightarrow> (string \<times> 'n pyval) list \<Rightarrow> string \<Rightarrow> py_exn + string"
where
  "replace_match lib replacements key = value_text lib (dict_get replacements key (PStr []))"

fun is_dict_or_list :: "'n pyval \<Rightarrow> bool" where
  "is_dict_or_list (PDict d) = True"
| "is_dict_or_list (PList l) = True"
| "is_dict_or_list v = False"

text \<open>
  \<^verbatim>\<open>_replace_placeholders\<close>. The \<^verbatim>\<open>try\<close> around \<^verbatim>\<open>json.loads\<close> has the one
  handler \<^verbatim>\<open>except json.JSONDecodeError: pass\<close>; every other exception of
  \<^verbatim>\<open>json.loads\<close>, and every exception of \<^verbatim>\<open>replace_match\<close>, leaves the method.
\<close>

definition replace_placeholders ::
  "'n json_library \<Rightarrow> string \<Rightarrow> (string \<times> 'n pyval) list \<Rightarrow> py_exn + 'n pyval"
where
  "replace_placeholders lib template replacements =
     (let stripped = py_strip template;
          direct =
            (case PIPE_PLACEHOLDER_PATTERN_fullmatch stripped of
               None \<Rightarrow> None
             | Some key \<Rightarrow>
                 (let v = dict_get replacements key (PStr [])
                  in if is_dict_or_list v then Some v else None))
      in case direct of
           Some v \<Rightarrow> Inr v
         | None \<Rightarrow>
             (case PIPE_PLACEHOLDER_PATTERN_sub (replace_match lib replacements) template of
                Inl e \<Rightarrow> Inl e
              | Inr result \<Rightarrow>
                  if startswith stripped ''{''
                  then (case json_loads lib result of
                          Parsed v \<Rightarrow> Inr v
                        | RaisesJSONDecodeError m \<Rightarrow> Inr (PStr result)
                        | RaisesValueError m \<Rightarrow> Inl (Exn ValueError m)
                        | RaisesOtherException c m \<Rightarrow> Inl (Exn (OtherException c) m))
                  else Inr (PStr result)))"

definition transform ::
  "'n json_library \<Rightarrow> PipeInputTransformer \<Rightarrow> string \<Rightarrow> 'n event \<Rightarrow> py_exn + 'n pyval"
where
  "transform lib self now_iso event =
     replace_placeholders lib (input_template self) (build_replacements self now_iso event)"

subsection \<open>The result typing rule, in the words of the specification\<close>

text \<open>
  The replacement table of the specification: the pipe variables, the event under two
  keys, a path \<^verbatim>\<open>$.<dotted.path>\<close> resolved in the event, and the empty string for any
  other key. A path is resolved by walking its dot-separated keys from the event root;
  a missing key or a step through a value that is not an object gives the empty string.
\<close>

definition spec_table ::
  "PipeInputTransformer \<Rightarrow> string \<Rightarrow> 'n event \<Rightarrow> (string \<times> 'n pyval) list"
where
  "spec_table self now_iso event =
     [(''aws.pipes.pipe-arn'', PStr (tr_pipe_arn self)),
      (''aws.pipes.pipe-name'', PStr (tr_pipe_name self)),
      (''aws.pipes.source-arn'', PStr (tr_source_arn self)),
      (''aws.pipes.target-arn'', PStr (tr_target_arn self)),
      (''aws.pipes.event.ingestion-time'', PStr now_iso),
      (''aws.pipes.event.json'', PDict event),
      (''aws.pipes.event'', PDict event)]"

fun spec_walk :: "'n pyval \<Rightarrow> string list \<Rightarrow> 'n pyval option" where
  "spec_walk v [] = Some v"
| "spec_walk (PDict d) (key # keys) =
     (case map_of d key of None \<Rightarrow> None | Some v \<Rightarrow> spec_walk v keys)"
| "spec_walk v (key # keys) = None"

definition spec_path_value :: "'n event \<Rightarrow> string \<Rightarrow> 'n pyval" where
  "spec_path_value event key =
     (case spec_walk (PDict event) (split_on CHR ''.'' (drop 2 key)) of
        None \<Rightarrow> PStr []
      | Some v \<Rightarrow> v)"

definition spec_replacement ::
  "PipeInputTransformer \<Rightarrow> string \<Rightarrow> 'n event \<Rightarrow> string \<Rightarrow> 'n pyval"
where
  "spec_replacement self now_iso event key =
     (case map_of (spec_table self now_iso event) key of
        Some v \<Rightarrow> v
      | None \<Rightarrow> if startswith key ''$.'' then spec_path_value event key else PStr [])"

text \<open>
  A template "is a single placeholder" when the scan of the trimmed template is exactly
  one match; a value is structured when it is an object or an array.
\<close>

definition spec_single_placeholder :: "string \<Rightarrow> string option" where
  "spec_single_placeholder template =
     (case placeholder_tokens (py_strip template) of
        [Placeholder key] \<Rightarrow> Some key
      | _ \<Rightarrow> None)"

definition spec_is_structured :: "'n pyval \<Rightarrow> bool" where
  "spec_is_structured v = (case v of PDict d \<Rightarrow> True | PList l \<Rightarrow> True | _ \<Rightarrow> False)"

text \<open>
  The text of a replacement: the JSON serialization of an object (by
  \<^verbatim>\<open>to_json_str\<close>), of an array and of a boolean (by \<^verbatim>\<open>json.dumps\<close>), and the
  string coercion of any other value. \<open>spec_pieces\<close> are the texts that make up the
  substituted string, in the order of the template: a character outside a placeholder,
  or the text of a placeholder's replacement, which is an exception where the
  serialization raises. \<open>spec_substituted\<close> is the first exception among them, or else
  their concatenation.
\<close>

definition spec_value_text :: "'n json_library \<Rightarrow> 'n pyval \<Rightarrow> py_exn + string" where
  "spec_value_text lib v =
     (case v of
        PDict d \<Rightarrow> to_json_str lib v
      | PList l \<Rightarrow> json_dumps lib v
      | PBool b \<Rightarrow> json_dumps lib v
      | PStr s \<Rightarrow> Inr s
      | PNum n \<Rightarrow> str_of_number lib n
      | PNone \<Rightarrow> Inr ''None'')"

definition spec_pieces ::
  "'n json_library \<Rightarrow> PipeInputTransformer \<Rightarrow> string \<Rightarrow> 'n event \<Rightarrow> (py_exn + string) list"
where
  "spec_pieces lib self now_iso event =
     map (\<lambda>t. case t of
                 Lit c \<Rightarrow> Inr [c]
               | Placeholder key \<Rightarrow> spec_value_text lib (spec_replacement self now_iso event key))
         (placeholder_tokens (input_template self))"

definition spec_substituted ::
  "'n json_library \<Rightarrow> PipeInputTransformer \<Rightarrow> string \<Rightarrow> 'n event \<Rightarrow> py_exn + string"
where
  "spec_substituted lib self now_iso event =
     (case List.find isl (spec_pieces lib self now_iso event) of
        Some piece \<Rightarrow> Inl (projl piece)
      | None \<Rightarrow> Inr (concat (map projr (spec_pieces lib self now_iso event))))"

lemma walk_keys_not_dict:
  "\<forall>d. v \<noteq> PDict d \<Longrightarrow> walk_keys v keys = (if keys = [] then v else PStr [])"
  by (cases keys; cases v) simp_all

lemma walk_keys_spec_walk:
  "walk_keys v keys = (case spec_walk v keys of None \<Rightarrow> PStr [] | Some x \<Rightarrow> x)"
proof (induction keys arbitrary: v)
  case Nil
  then show ?case by simp
next
  case (Cons key keys)
  show ?case
  proof (cases v)
    case (PDict d)
    show ?thesis
    proof (cases "map_of d key")
      case None
      have "walk_keys (PStr [] :: 'a pyval) keys = PStr []"
        by (simp add: walk_keys_not_dict)
      with None PDict show ?thesis by (simp add: dict_get_def)
    next
      case (Some x)
      with PDict Cons.IH[of x] show ?thesis by (simp add: dict_get_def)
    qed
  qed simp_all
qed

lemma extract_jsonpath_spec:
  "startswith path ''$.'' \<Longrightarrow> extract_jsonpath event path = spec_path_value event path"
  by (simp add: extract_jsonpath_def spec_path_value_def walk_keys_spec_walk)

lemma is_dict_or_list_spec: "is_dict_or_list v = spec_is_structured v"
  by (cases v) (simp_all add: spec_is_structured_def)

lemma value_text_spec: "value_text lib v = spec_value_text lib v"
  by (cases v) (simp_all add: spec_value_text_def)

lemma sub_tokens_pieces:
  "sub_tokens repl ts =
     (case List.find isl (map (\<lambda>t. case t of Lit c \<Rightarrow> Inr [c] | Placeholder k \<Rightarrow> repl k) ts) of
        Some piece \<Rightarrow> Inl (projl piece)
      | None \<Rightarrow> Inr (concat (map projr
                   (map (\<lambda>t. case t of Lit c \<Rightarrow> Inr [c] | Placeholder k \<Rightarrow> repl k) ts))))"
proof (induction ts)
  case Nil
  then show ?case by simp
next
  case (Cons t ts)
  show ?case
  proof (cases t)
    case (Lit c)
    with Cons show ?thesis by (simp split: option.splits)
  next
    case (Placeholder k)
    with Cons show ?thesis by (cases "repl k") (simp_all split: option.splits)
  qed
qed

lemma find_close_Some:
  "find_close cs = Some (k, r) \<longleftrightarrow>
     cs = k @ CHR ''>'' # r \<and> CHR ''>'' \<notin> set k \<and> CHR 0x0A \<notin> set k"
proof (induction cs arbitrary: k r)
  case Nil
  then show ?case by simp
next
  case (Cons c cs)
  show ?case
  proof (cases "c = CHR ''>''")
    case True
    then show ?thesis by (cases k) auto
  next
    case False
    show ?thesis
    proof (cases "c = CHR 0x0A")
      case True
      then show ?thesis using False by (cases k) auto
    next
      case nl: False
      show ?thesis
      proof (cases k)
        case Nil
        with False nl show ?thesis by (auto split: option.splits)
      next
        case (Cons a k')
        with False nl Cons.IH[of k' r] show ?thesis by (auto split: option.splits)
      qed
    qed
  qed
qed

lemma tokens_placeholder:
  assumes "CHR ''>'' \<notin> set k" "CHR 0x0A \<notin> set k"
  shows "placeholder_tokens (CHR ''<'' # k @ CHR ''>'' # r) = Placeholder k # placeholder_tokens r"
proof -
  have "find_close (k @ CHR ''>'' # r) = Some (k, r)"
    using assms by (simp only: find_close_Some) simp
  then show ?thesis by simp
qed

lemma tokens_lit_prefix:
  "CHR ''<'' \<notin> set w \<Longrightarrow> placeholder_tokens (w @ s) = map Lit w @ placeholder_tokens s"
  by (induction w) auto

lemma tokens_Nil: "placeholder_tokens s = [] \<longleftrightarrow> s = []"
  by (cases s) (auto split: option.splits)

lemma tokens_single:
  "placeholder_tokens s = [Placeholder k] \<longleftrightarrow>
     s = CHR ''<'' # k @ [CHR ''>''] \<and> CHR ''>'' \<notin> set k \<and> CHR 0x0A \<notin> set k"
proof
  assume a: "placeholder_tokens s = [Placeholder k]"
  then obtain c cs where s: "s = c # cs" by (cases s) auto
  with a have c: "c = CHR ''<''" by (auto split: if_splits option.splits)
  with a s obtain k' r where f: "find_close cs = Some (k', r)"
    by (cases "find_close cs") auto
  with a s c have "k' = k" "placeholder_tokens r = []" by simp_all
  then have "k' = k" "r = []" by (simp_all add: tokens_Nil)
  with f have "cs = k @ [CHR ''>''] \<and> CHR ''>'' \<notin> set k \<and> CHR 0x0A \<notin> set k"
    by (simp add: find_close_Some)
  with s c show "s = CHR ''<'' # k @ [CHR ''>''] \<and> CHR ''>'' \<notin> set k \<and> CHR 0x0A \<notin> set k"
    by simp
next
  assume "s = CHR ''<'' # k @ [CHR ''>''] \<and> CHR ''>'' \<notin> set k \<and> CHR 0x0A \<notin> set k"
  then show "placeholder_tokens s = [Placeholder k]"
    using tokens_placeholder[of k "[]"] by simp
qed

lemma fullmatch_Some:
  "PIPE_PLACEHOLDER_PATTERN_fullmatch s = Some k \<longleftrightarrow>
     s = CHR ''<'' # k @ [CHR ''>''] \<and> CHR 0x0A \<notin> set k"
proof (cases s)
  case Nil
  then show ?thesis by (simp add: PIPE_PLACEHOLDER_PATTERN_fullmatch_def)
next
  case (Cons c cs)
  show ?thesis
  proof (cases "cs = []")
    case True
    with Cons show ?thesis by (simp add: PIPE_PLACEHOLDER_PATTERN_fullmatch_def)
  next
    case False
    then have cs: "cs = butlast cs @ [last cs]" by simp
    show ?thesis
    proof
      assume "PIPE_PLACEHOLDER_PATTERN_fullmatch s = Some k"
      with Cons False have "c = CHR ''<''" "last cs = CHR ''>''" "CHR 0x0A \<notin> set (butlast cs)"
        "k = butlast cs"
        by (auto simp: PIPE_PLACEHOLDER_PATTERN_fullmatch_def split: if_splits)
      with cs Cons show "s = CHR ''<'' # k @ [CHR ''>''] \<and> CHR 0x0A \<notin> set k" by simp
    next
      assume "s = CHR ''<'' # k @ [CHR ''>''] \<and> CHR 0x0A \<notin> set k"
      with Cons have e: "c = CHR ''<''" "cs = k @ [CHR ''>'']" "CHR 0x0A \<notin> set k" by simp_all
      show "PIPE_PLACEHOLDER_PATTERN_fullmatch s = Some k"
        unfolding Cons e(1) e(2) using e(3)
        by (simp add: PIPE_PLACEHOLDER_PATTERN_fullmatch_def)
    qed
  qed
qed

lemma tokens_no_close:
  "Placeholder k \<in> set (placeholder_tokens s) \<Longrightarrow> CHR ''>'' \<notin> set k"
proof (induction s rule: placeholder_tokens.induct)
  case 1
  then show ?case by simp
next
  case (2 c cs)
  then show ?case
    by (auto simp: find_close_Some split: if_splits option.splits)
qed

lemma findall_set:
  "k \<in> set (PIPE_PLACEHOLDER_PATTERN_findall s) \<longleftrightarrow> Placeholder k \<in> set (placeholder_tokens s)"
proof -
  have "k \<in> set (concat (map (\<lambda>t. case t of Lit c \<Rightarrow> [] | Placeholder k \<Rightarrow> [k]) ts))
          \<longleftrightarrow> Placeholder k \<in> set ts" for ts
    by (induction ts) (auto split: token.splits)
  then show ?thesis by (simp add: PIPE_PLACEHOLDER_PATTERN_findall_def)
qed

lemma findall_no_close:
  "k \<in> set (PIPE_PLACEHOLDER_PATTERN_findall s) \<Longrightarrow> CHR ''>'' \<notin> set k"
  by (simp add: findall_set tokens_no_close)

lemma not_space_lt: "\<not> is_space (CHR ''<'')"
  by (simp add: is_space_def)

lemma py_strip_decompose:
  "\<exists>w1 w2. s = w1 @ py_strip s @ w2 \<and> (\<forall>c\<in>set w1. is_space c) \<and> (\<forall>c\<in>set w2. is_space c)"
proof -
  let ?s1 = "dropWhile is_space s"
  let ?w1 = "takeWhile is_space s"
  let ?w2 = "rev (takeWhile is_space (rev ?s1))"
  have a: "s = ?w1 @ ?s1" by simp
  have "rev (takeWhile is_space (rev ?s1) @ dropWhile is_space (rev ?s1))
          = rev (dropWhile is_space (rev ?s1)) @ rev (takeWhile is_space (rev ?s1))"
    by (rule rev_append)
  moreover have "takeWhile is_space (rev ?s1) @ dropWhile is_space (rev ?s1) = rev ?s1"
    by (rule takeWhile_dropWhile_id)
  ultimately have "rev (rev ?s1) = rev (dropWhile is_space (rev ?s1)) @ ?w2" by simp
  then have b: "?s1 = py_strip s @ ?w2" by (simp only: rev_rev_ident py_strip_def)
  have c: "\<forall>c\<in>set ?w1. is_space c" by (auto dest: set_takeWhileD)
  have d: "\<forall>c\<in>set ?w2. is_space c" by (auto dest: set_takeWhileD)
  from a b have "s = ?w1 @ py_strip s @ ?w2" by simp
  with c d show ?thesis by blast
qed

lemma stripped_key_in_findall:
  assumes "py_strip s = CHR ''<'' # k @ [CHR ''>'']" "CHR ''>'' \<notin> set k" "CHR 0x0A \<notin> set k"
  shows "k \<in> set (PIPE_PLACEHOLDER_PATTERN_findall s)"
proof -
  from py_strip_decompose[of s] obtain w1 w2 where
    s: "s = w1 @ py_strip s @ w2" and w1: "\<forall>c\<in>set w1. is_space c" by blast
  from w1 not_space_lt have n: "CHR ''<'' \<notin> set w1" by blast
  have "s = w1 @ (CHR ''<'' # k @ CHR ''>'' # w2)" using s assms(1) by simp
  then have "placeholder_tokens s = map Lit w1 @ Placeholder k # placeholder_tokens w2"
    using tokens_lit_prefix[OF n] tokens_placeholder[OF assms(2,3)] by metis
  then show ?thesis by (simp add: findall_set)
qed

lemma map_of_dict_set_full: "map_of (dict_set d k v) = (map_of d)(k \<mapsto> v)"
  by (simp add: dict_set_def update_conv')

lemma foldl_replacements_lookup:
  "map_of (foldl (\<lambda>replacements placeholder.
              if startswith placeholder ''$.''
              then dict_set replacements placeholder (f placeholder)
              else replacements) init phs) k
   = (if k \<in> set phs \<and> startswith k ''$.'' then Some (f k) else map_of init k)"
  by (induction phs arbitrary: init) (auto simp: map_of_dict_set_full)

lemma spec_table_key_plain:
  assumes "map_of (spec_table self now_iso event) k = Some v"
  shows "\<not> startswith k ''$.'' \<and> CHR ''>'' \<notin> set k"
proof -
  from assms have "(k, v) \<in> set (spec_table self now_iso event)" by (rule map_of_SomeD)
  then have "k \<in> fst ` set (spec_table self now_iso event)" by force
  then have "k \<in> {''aws.pipes.pipe-arn'', ''aws.pipes.pipe-name'', ''aws.pipes.source-arn'',
      ''aws.pipes.target-arn'', ''aws.pipes.event.ingestion-time'', ''aws.pipes.event.json'',
      ''aws.pipes.event''}"
    by (simp add: spec_table_def)
  then show ?thesis by (elim insertE emptyE) (simp_all add: startswith_def)
qed


lemma build_replacements_get:
  "dict_get (build_replacements self now_iso event) k (PStr [])
   = (if k \<in> set (PIPE_PLACEHOLDER_PATTERN_findall (input_template self)) \<and> startswith k ''$.''
      then extract_jsonpath event k
      else (case map_of (spec_table self now_iso event) k of Some v \<Rightarrow> v | None \<Rightarrow> PStr []))"
  unfolding dict_get_def build_replacements_def foldl_replacements_lookup
    spec_table_def[symmetric]
  by simp

lemma get_found_key:
  assumes "k \<in> set (PIPE_PLACEHOLDER_PATTERN_findall (input_template self))"
  shows "dict_get (build_replacements self now_iso event) k (PStr [])
         = spec_replacement self now_iso event k"
proof (cases "startswith k ''$.''")
  case True
  then have "map_of (spec_table self now_iso event) k = None"
    using spec_table_key_plain[of self now_iso event k] by (cases "map_of (spec_table self now_iso event) k") auto
  with True assms show ?thesis
    by (simp add: build_replacements_get spec_replacement_def extract_jsonpath_spec)
next
  case False
  then show ?thesis
    by (simp add: build_replacements_get spec_replacement_def)
qed

lemma get_key_with_close:
  assumes "CHR ''>'' \<in> set k"
  shows "dict_get (build_replacements self now_iso event) k (PStr []) = PStr []"
proof -
  from assms have "k \<notin> set (PIPE_PLACEHOLDER_PATTERN_findall (input_template self))"
    using findall_no_close by blast
  moreover from assms have "map_of (spec_table self now_iso event) k = None"
    using spec_table_key_plain[of self now_iso event k] by (cases "map_of (spec_table self now_iso event) k") auto
  ultimately show ?thesis by (simp add: build_replacements_get)
qed

lemma sub_eq_spec_substituted:
  "PIPE_PLACEHOLDER_PATTERN_sub (replace_match lib (build_replacements self now_iso event))
     (input_template self)
   = spec_substituted lib self now_iso event"
proof -
  have "(case t of Lit c \<Rightarrow> Inr [c]
          | Placeholder k \<Rightarrow> replace_match lib (build_replacements self now_iso event) k)
        = (case t of Lit c \<Rightarrow> Inr [c]
          | Placeholder key \<Rightarrow> spec_value_text lib (spec_replacement self now_iso event key))"
    if "t \<in> set (placeholder_tokens (input_template self))" for t
  proof (cases t)
    case (Lit c)
    then show ?thesis by simp
  next
    case (Placeholder k)
    with that have "k \<in> set (PIPE_PLACEHOLDER_PATTERN_findall (input_template self))"
      by (simp add: findall_set)
    then show ?thesis using Placeholder
      by (simp add: replace_match_def get_found_key value_text_spec)
  qed
  then have "map (\<lambda>t. case t of Lit c \<Rightarrow> Inr [c]
          | Placeholder k \<Rightarrow> replace_match lib (build_replacements self now_iso event) k)
            (placeholder_tokens (input_template self))
        = spec_pieces lib self now_iso event"
    unfolding spec_pieces_def by (intro map_cong refl)
  then show ?thesis
    unfolding PIPE_PLACEHOLDER_PATTERN_sub_def spec_substituted_def sub_tokens_pieces
    by (simp only:)
qed

lemma single_none_if_no_fullmatch:
  assumes "PIPE_PLACEHOLDER_PATTERN_fullmatch (py_strip t) = None"
  shows "spec_single_placeholder t = None"
proof (rule ccontr)
  assume "spec_single_placeholder t \<noteq> None"
  then obtain k where "placeholder_tokens (py_strip t) = [Placeholder k]"
    by (auto simp: spec_single_placeholder_def split: list.splits token.splits)
  then have "py_strip t = CHR ''<'' # k @ [CHR ''>''] \<and> CHR ''>'' \<notin> set k \<and> CHR 0x0A \<notin> set k"
    by (rule tokens_single[THEN iffD1])
  then have "py_strip t = CHR ''<'' # k @ [CHR ''>''] \<and> CHR 0x0A \<notin> set k" by blast
  then have "PIPE_PLACEHOLDER_PATTERN_fullmatch (py_strip t) = Some k"
    by (rule fullmatch_Some[THEN iffD2])
  with assms show False by simp
qed

lemma single_none_if_key_has_close:
  assumes "py_strip t = CHR ''<'' # key @ [CHR ''>'']" "CHR ''>'' \<in> set key"
  shows "spec_single_placeholder t = None"
proof (rule ccontr)
  assume "spec_single_placeholder t \<noteq> None"
  then obtain k where "placeholder_tokens (py_strip t) = [Placeholder k]"
    by (auto simp: spec_single_placeholder_def split: list.splits token.splits)
  then have "py_strip t = CHR ''<'' # k @ [CHR ''>''] \<and> CHR ''>'' \<notin> set k \<and> CHR 0x0A \<notin> set k"
    by (rule tokens_single[THEN iffD1])
  then have e: "py_strip t = CHR ''<'' # k @ [CHR ''>'']" and n: "CHR ''>'' \<notin> set k" by blast+
  from e assms(1) have "k = key" by simp
  with n assms(2) show False by simp
qed

lemma single_some_if_clean:
  assumes "py_strip t = CHR ''<'' # key @ [CHR ''>'']" "CHR ''>'' \<notin> set key"
    "CHR 0x0A \<notin> set key"
  shows "spec_single_placeholder t = Some key"
proof -
  have "py_strip t = CHR ''<'' # key @ [CHR ''>''] \<and> CHR ''>'' \<notin> set key \<and> CHR 0x0A \<notin> set key"
    using assms by (intro conjI)
  then have "placeholder_tokens (py_strip t) = [Placeholder key]"
    by (rule tokens_single[THEN iffD2])
  then show ?thesis by (simp add: spec_single_placeholder_def)
qed

lemma direct_eq_spec:
  "(case PIPE_PLACEHOLDER_PATTERN_fullmatch (py_strip (input_template self)) of
      None \<Rightarrow> None
    | Some key \<Rightarrow>
        (if is_dict_or_list (dict_get (build_replacements self now_iso event) key (PStr []))
         then Some (dict_get (build_replacements self now_iso event) key (PStr []))
         else None))
   = (case spec_single_placeholder (input_template self) of
        None \<Rightarrow> None
      | Some key \<Rightarrow>
          if spec_is_structured (spec_replacement self now_iso event key)
          then Some (spec_replacement self now_iso event key) else None)"
proof (cases "PIPE_PLACEHOLDER_PATTERN_fullmatch (py_strip (input_template self))")
  case None
  with single_none_if_no_fullmatch[OF None] show ?thesis by simp
next
  case (Some key)
  then have "py_strip (input_template self) = CHR ''<'' # key @ [CHR ''>'']
             \<and> CHR 0x0A \<notin> set key"
    by (rule fullmatch_Some[THEN iffD1])
  then have st: "py_strip (input_template self) = CHR ''<'' # key @ [CHR ''>'']"
    and nl: "CHR 0x0A \<notin> set key" by blast+
  show ?thesis
  proof (cases "CHR ''>'' \<in> set key")
    case True
    have g: "dict_get (build_replacements self now_iso event) key (PStr []) = PStr []"
      using True by (rule get_key_with_close)
    show ?thesis
      by (simp add: Some single_none_if_key_has_close[OF st True] g)
  next
    case False
    have g: "dict_get (build_replacements self now_iso event) key (PStr [])
            = spec_replacement self now_iso event key"
      using stripped_key_in_findall[OF st False nl] by (rule get_found_key)
    show ?thesis
      by (simp add: Some single_some_if_clean[OF st False nl] g is_dict_or_list_spec)
  qed
qed

lemma transform_unfold:
  "transform lib self now_iso event
   = (case (case spec_single_placeholder (input_template self) of
              None \<Rightarrow> None
            | Some key \<Rightarrow>
                if spec_is_structured (spec_replacement self now_iso event key)
                then Some (spec_replacement self now_iso event key) else None) of
        Some v \<Rightarrow> Inr v
      | None \<Rightarrow>
          (case spec_substituted lib self now_iso event of
             Inl e \<Rightarrow> Inl e
           | Inr result \<Rightarrow>
               if startswith (py_strip (input_template self)) ''{''
               then (case json_loads lib result of
                       Parsed v \<Rightarrow> Inr v
                     | RaisesJSONDecodeError m \<Rightarrow> Inr (PStr result)
                     | RaisesValueError m \<Rightarrow> Inl (Exn ValueError m)
                     | RaisesOtherException c m \<Rightarrow> Inl (Exn (OtherException c) m))
               else Inr (PStr result)))"
proof -
  have l: "transform lib self now_iso event
           = (case (case PIPE_PLACEHOLDER_PATTERN_fullmatch (py_strip (input_template self)) of
                      None \<Rightarrow> None
                    | Some key \<Rightarrow>
                        (if is_dict_or_list (dict_get (build_replacements self now_iso event) key (PStr []))
                         then Some (dict_get (build_replacements self now_iso event) key (PStr []))
                         else None)) of
                Some v \<Rightarrow> Inr v
              | None \<Rightarrow>
                  (case spec_substituted lib self now_iso event of
                     Inl e \<Rightarrow> Inl e
                   | Inr result \<Rightarrow>
                       if startswith (py_strip (input_template self)) ''{''
                       then (case json_loads lib result of
                               Parsed v \<Rightarrow> Inr v
                             | RaisesJSONDecodeError m \<Rightarrow> Inr (PStr result)
                             | RaisesValueError m \<Rightarrow> Inl (Exn ValueError m)
                             | RaisesOtherException c m \<Rightarrow> Inl (Exn (OtherException c) m))
                       else Inr (PStr result)))"
    unfolding transform_def replace_placeholders_def Let_def sub_eq_spec_substituted ..
  show ?thesis unfolding l direct_eq_spec ..
qed

lemma transform_single:
  assumes "spec_single_placeholder (input_template self) = Some key"
    and "spec_is_structured (spec_replacement self now_iso event key)"
  shows "transform lib self now_iso event = Inr (spec_replacement self now_iso event key)"
  unfolding transform_unfold using assms by simp

lemma transform_otherwise:
  assumes "\<not> (\<exists>key. spec_single_placeholder (input_template self) = Some key
              \<and> spec_is_structured (spec_replacement self now_iso event key))"
  shows "transform lib self now_iso event
         = (case spec_substituted lib self now_iso event of
              Inl e \<Rightarrow> Inl e
            | Inr result \<Rightarrow>
                if startswith (py_strip (input_template self)) ''{''
                then (case json_loads lib result of
                        Parsed v \<Rightarrow> Inr v
                      | RaisesJSONDecodeError m \<Rightarrow> Inr (PStr result)
                      | RaisesValueError m \<Rightarrow> Inl (Exn ValueError m)
                      | RaisesOtherException c m \<Rightarrow> Inl (Exn (OtherException c) m))
                else Inr (PStr result))"
proof (cases "spec_single_placeholder (input_template self)")
  case None
  then show ?thesis unfolding transform_unfold by simp
next
  case (Some key)
  with assms have "\<not> spec_is_structured (spec_replacement self now_iso event key)" by blast
  with Some show ?thesis unfolding transform_unfold by simp
qed

lemma transform_event_json:
  "transform lib (self\<lparr>input_template := ''<aws.pipes.event.json>''\<rparr>) now_iso event
     = Inr (PDict event)"
proof -
  have s: "spec_single_placeholder ''<aws.pipes.event.json>'' = Some ''aws.pipes.event.json''"
    by (simp add: spec_single_placeholder_def py_strip_def is_space_def)
  have r: "spec_replacement (self\<lparr>input_template := ''<aws.pipes.event.json>''\<rparr>) now_iso event
             ''aws.pipes.event.json'' = PDict event"
    by (simp add: spec_replacement_def spec_table_def)
  show ?thesis unfolding transform_unfold by (simp add: s r spec_is_structured_def)
qed

lemma py_strip_id:
  assumes "s \<noteq> []" "\<not> is_space (hd s)" "\<not> is_space (last s)"
  shows "py_strip s = s"
proof -
  from assms(1,2) have a: "dropWhile is_space s = s" by (cases s) simp_all
  from assms(1,3) have "dropWhile is_space (rev s) = rev s"
    by (cases "rev s") (simp_all add: hd_rev[symmetric])
  with a show ?thesis by (simp add: py_strip_def)
qed

lemma tokens_no_open: "CHR ''<'' \<notin> set s \<Longrightarrow> placeholder_tokens s = map Lit s"
  using tokens_lit_prefix[of s "[]"] by simp

lemma single_no_open:
  assumes "CHR ''<'' \<notin> set (py_strip t)"
  shows "spec_single_placeholder t = None"
proof -
  have eq: "placeholder_tokens (py_strip t) = map Lit (py_strip t)"
    using assms by (rule tokens_no_open)
  show ?thesis unfolding spec_single_placeholder_def eq by (cases "py_strip t") simp_all
qed

lemma sub_tokens_lits: "sub_tokens repl (map Lit cs) = Inr cs"
  by (induction cs) simp_all

lemma substituted_no_open:
  assumes "CHR ''<'' \<notin> set (input_template self)"
  shows "spec_substituted lib self now_iso event = Inr (input_template self)"
proof -
  have "spec_substituted lib self now_iso event
          = PIPE_PLACEHOLDER_PATTERN_sub (replace_match lib (build_replacements self now_iso event))
              (input_template self)"
    by (rule sub_eq_spec_substituted[symmetric])
  then show ?thesis
    by (simp add: PIPE_PLACEHOLDER_PATTERN_sub_def tokens_no_open[OF assms] sub_tokens_lits)
qed

text \<open>
  C1, as stated, fails where \<^verbatim>\<open>json.loads\<close> raises something other than
  \<^verbatim>\<open>JSONDecodeError\<close>. The template is a JSON object whose one member is an integer
  of 4301 digits. It has no placeholder, so the substituted string is the template, and
  it begins with a brace; \<^verbatim>\<open>json.loads\<close> raises \<^verbatim>\<open>ValueError\<close> on it, which the
  handler does not catch: \<open>transform\<close> raises, where the claim says the string is
  returned.
\<close>

theorem transform_value_error_counterexample:
  "spec_single_placeholder
       (''{'' @ [CHR 0x22] @ ''n'' @ [CHR 0x22] @ '': '' @ replicate 4301 (CHR ''1'') @ ''}'') = None
   \<and> startswith
       (py_strip (''{'' @ [CHR 0x22] @ ''n'' @ [CHR 0x22] @ '': '' @ replicate 4301 (CHR ''1'') @ ''}''))
       ''{''
   \<and> spec_substituted
        \<lparr>to_json_str = (\<lambda>v. Inr ''{}''), json_dumps = (\<lambda>v. Inr ''[]''),
         json_loads = (\<lambda>s. if s = ''{'' @ [CHR 0x22] @ ''n'' @ [CHR 0x22] @ '': ''
                                      @ replicate 4301 (CHR ''1'') @ ''}''
                            then RaisesValueError ''Exceeds the limit (4300 digits) for integer string conversion''
                            else RaisesJSONDecodeError ''Expecting value''),
         str_of_number = (\<lambda>n :: int. Inr ''0'')\<rparr>
        \<lparr>input_template = ''{'' @ [CHR 0x22] @ ''n'' @ [CHR 0x22] @ '': '' @ replicate 4301 (CHR ''1'') @ ''}'',
         tr_pipe_arn = ''arn:aws:pipes:us-east-1:000000000000:pipe/p'', tr_pipe_name = ''p'',
         tr_source_arn = ''src'', tr_target_arn = ''dst''\<rparr> ''t0'' [(''x'', PNum 7)]
     = Inr (''{'' @ [CHR 0x22] @ ''n'' @ [CHR 0x22] @ '': '' @ replicate 4301 (CHR ''1'') @ ''}'')
   \<and> transform
        \<lparr>to_json_str = (\<lambda>v. Inr ''{}''), json_dumps = (\<lambda>v. Inr ''[]''),
         json_loads = (\<lambda>s. if s = ''{'' @ [CHR 0x22] @ ''n'' @ [CHR 0x22] @ '': ''
                                      @ replicate 4301 (CHR ''1'') @ ''}''
                            then RaisesValueError ''Exceeds the limit (4300 digits) for integer string conversion''
                            else RaisesJSONDecodeError ''Expecting value''),
         str_of_number = (\<lambda>n :: int. Inr ''0'')\<rparr>
        \<lparr>input_template = ''{'' @ [CHR 0x22] @ ''n'' @ [CHR 0x22] @ '': '' @ replicate 4301 (CHR ''1'') @ ''}'',
         tr_pipe_arn = ''arn:aws:pipes:us-east-1:000000000000:pipe/p'', tr_pipe_name = ''p'',
         tr_source_arn = ''src'', tr_target_arn = ''dst''\<rparr> ''t0'' [(''x'', PNum 7)]
     = Inl (Exn ValueError ''Exceeds the limit (4300 digits) for integer string conversion'')
   \<and> transform
        \<lparr>to_json_str = (\<lambda>v. Inr ''{}''), json_dumps = (\<lambda>v. Inr ''[]''),
         json_loads = (\<lambda>s. if s = ''{'' @ [CHR 0x22] @ ''n'' @ [CHR 0x22] @ '': ''
                                      @ replicate 4301 (CHR ''1'') @ ''}''
                            then RaisesValueError ''Exceeds the limit (4300 digits) for integer string conversion''
                            else RaisesJSONDecodeError ''Expecting value''),
         str_of_number = (\<lambda>n :: int. Inr ''0'')\<rparr>
        \<lparr>input_template = ''{'' @ [CHR 0x22] @ ''n'' @ [CHR 0x22] @ '': '' @ replicate 4301 (CHR ''1'') @ ''}'',
         tr_pipe_arn = ''arn:aws:pipes:us-east-1:000000000000:pipe/p'', tr_pipe_name = ''p'',
         tr_source_arn = ''src'', tr_target_arn = ''dst''\<rparr> ''t0'' [(''x'', PNum 7)]
     \<noteq> Inr (PStr (''{'' @ [CHR 0x22] @ ''n'' @ [CHR 0x22] @ '': '' @ replicate 4301 (CHR ''1'') @ ''}''))"
proof -
  let ?T = "''{'' @ [CHR 0x22] @ ''n'' @ [CHR 0x22] @ '': '' @ replicate 4301 (CHR ''1'') @ ''}''"
  let ?msg = "''Exceeds the limit (4300 digits) for integer string conversion''"
  let ?lib = "\<lparr>to_json_str = (\<lambda>v. Inr ''{}''), json_dumps = (\<lambda>v. Inr ''[]''),
         json_loads = (\<lambda>s. if s = ?T then RaisesValueError ?msg
                            else RaisesJSONDecodeError ''Expecting value''),
         str_of_number = (\<lambda>n :: int. Inr ''0'')\<rparr>"
  let ?self = "\<lparr>input_template = ?T,
         tr_pipe_arn = ''arn:aws:pipes:us-east-1:000000000000:pipe/p'', tr_pipe_name = ''p'',
         tr_source_arn = ''src'', tr_target_arn = ''dst''\<rparr>"
  let ?ev = "[(''x'', PNum 7)] :: int event"
  have no: "CHR ''<'' \<notin> set ?T" by simp
  have strip: "py_strip ?T = ?T" by (rule py_strip_id) (simp_all add: is_space_def)
  have a: "spec_single_placeholder ?T = None"
    by (rule single_no_open) (simp only: strip, rule no)
  have b: "startswith (py_strip ?T) ''{''"
    unfolding strip by (simp add: startswith_def)
  have c: "spec_substituted ?lib ?self ''t0'' ?ev = Inr ?T"
    using substituted_no_open[of ?self ?lib "''t0''" ?ev] no by simp
  have n: "\<not> (\<exists>key. spec_single_placeholder (input_template ?self) = Some key
              \<and> spec_is_structured (spec_replacement ?self ''t0'' ?ev key))"
    using a by simp
  have b': "startswith (py_strip (input_template ?self)) ''{''" using b by simp
  have d: "transform ?lib ?self ''t0'' ?ev = Inl (Exn ValueError ?msg)"
    unfolding transform_otherwise[OF n] c using b' by simp
  have e: "transform ?lib ?self ''t0'' ?ev \<noteq> Inr (PStr ?T)"
    unfolding d by simp
  show ?thesis by (rule conjI[OF a conjI[OF b conjI[OF c conjI[OF d e]]]])
qed

text \<open>
  C1, amended. When the trimmed template is exactly one placeholder whose replacement
  is an object or an array, \<open>transform\<close> returns that value itself. Otherwise, when the
  serialization of a replacement raises, \<open>transform\<close> raises that exception; else,
  with the substituted string: if the trimmed template does not begin with a brace the
  string is returned; if it does, the value that \<^verbatim>\<open>json.loads\<close> gives for the string
  is returned, the string itself when \<^verbatim>\<open>json.loads\<close> raises
  \<^verbatim>\<open>JSONDecodeError\<close>, and any other exception of \<^verbatim>\<open>json.loads\<close> is raised by
  \<open>transform\<close>. The template \<^verbatim>\<open><aws.pipes.event.json>\<close> returns the event
  unchanged.
\<close>

theorem transform_result_typing:
  "(\<forall>key. spec_single_placeholder (input_template self) = Some key
            \<and> spec_is_structured (spec_replacement self now_iso event key)
        \<longrightarrow> transform lib self now_iso event = Inr (spec_replacement self now_iso event key))
   \<and> (\<not> (\<exists>key. spec_single_placeholder (input_template self) = Some key
              \<and> spec_is_structured (spec_replacement self now_iso event key))
        \<longrightarrow> (\<forall>e. spec_substituted lib self now_iso event = Inl e
                \<longrightarrow> transform lib self now_iso event = Inl e)
          \<and> (\<forall>s. spec_substituted lib self now_iso event = Inr s
                \<longrightarrow> (\<not> startswith (py_strip (input_template self)) ''{''
                      \<longrightarrow> transform lib self now_iso event = Inr (PStr s))
                  \<and> (startswith (py_strip (input_template self)) ''{''
                      \<longrightarrow> (\<forall>v. json_loads lib s = Parsed v
                              \<longrightarrow> transform lib self now_iso event = Inr v)
                        \<and> (\<forall>m. json_loads lib s = RaisesJSONDecodeError m
                              \<longrightarrow> transform lib self now_iso event = Inr (PStr s))
                        \<and> (\<forall>m. json_loads lib s = RaisesValueError m
                              \<longrightarrow> transform lib self now_iso event = Inl (Exn ValueError m))
                        \<and> (\<forall>c m. json_loads lib s = RaisesOtherException c m
                              \<longrightarrow> transform lib self now_iso event
                                    = Inl (Exn (OtherException c) m)))))
   \<and> transform lib (self\<lparr>input_template := ''<aws.pipes.event.json>''\<rparr>) now_iso event
       = Inr (PDict event)"
proof (intro conjI allI impI)
  fix key
  assume "spec_single_placeholder (input_template self) = Some key
          \<and> spec_is_structured (spec_replacement self now_iso event key)"
  then show "transform lib self now_iso event = Inr (spec_replacement self now_iso event key)"
    by (intro transform_single) simp_all
next
  show "transform lib (self\<lparr>input_template := ''<aws.pipes.event.json>''\<rparr>) now_iso event
       = Inr (PDict event)"
    by (rule transform_event_json)
next
  fix e
  assume "\<not> (\<exists>key. spec_single_placeholder (input_template self) = Some key
              \<and> spec_is_structured (spec_replacement self now_iso event key))"
    and "spec_substituted lib self now_iso event = Inl e"
  then show "transform lib self now_iso event = Inl e"
    by (simp add: transform_otherwise)
next
  fix s
  assume "\<not> (\<exists>key. spec_single_placeholder (input_template self) = Some key
              \<and> spec_is_structured (spec_replacement self now_iso event key))"
    and "spec_substituted lib self now_iso event = Inr s"
    and "\<not> startswith (py_strip (input_template self)) ''{''"
  then show "transform lib self now_iso event = Inr (PStr s)"
    by (simp add: transform_otherwise)
next
  fix s v
  assume "\<not> (\<exists>key. spec_single_placeholder (input_template self) = Some key
              \<and> spec_is_structured (spec_replacement self now_iso event key))"
    and "spec_substituted lib self now_iso event = Inr s"
    and "startswith (py_strip (input_template self)) ''{''"
    and "json_loads lib s = Parsed v"
  then show "transform lib self now_iso event = Inr v"
    by (simp add: transform_otherwise)
next
  fix s m
  assume "\<not> (\<exists>key. spec_single_placeholder (input_template self) = Some key
              \<and> spec_is_structured (spec_replacement self now_iso event key))"
    and "spec_substituted lib self now_iso event = Inr s"
    and "startswith (py_strip (input_template self)) ''{''"
    and "json_loads lib s = RaisesJSONDecodeError m"
  then show "transform lib self now_iso event = Inr (PStr s)"
    by (simp add: transform_otherwise)
next
  fix s m
  assume "\<not> (\<exists>key. spec_single_placeholder (input_template self) = Some key
              \<and> spec_is_structured (spec_replacement self now_iso event key))"
    and "spec_substituted lib self now_iso event = Inr s"
    and "startswith (py_strip (input_template self)) ''{''"
    and "json_loads lib s = RaisesValueError m"
  then show "transform lib self now_iso event = Inl (Exn ValueError m)"
    by (simp add: transform_otherwise)
next
  fix s c m
  assume "\<not> (\<exists>key. spec_single_placeholder (input_template self) = Some key
              \<and> spec_is_structured (spec_replacement self now_iso event key))"
    and "spec_substituted lib self now_iso event = Inr s"
    and "startswith (py_strip (input_template self)) ''{''"
    and "json_loads lib s = RaisesOtherException c m"
  then show "transform lib self now_iso event = Inl (Exn (OtherException c) m)"
    by (simp add: transform_otherwise)
qed

theorem transform_result_typing_witness:
  "spec_single_placeholder '' <$.body.items> '' = Some ''$.body.items''
   \<and> spec_is_structured (spec_replacement
        \<lparr>input_template = '' <$.body.items> '',
         tr_pipe_arn = ''arn:aws:pipes:us-east-1:000000000000:pipe/p'', tr_pipe_name = ''p'',
         tr_source_arn = ''src'', tr_target_arn = ''dst''\<rparr> ''t0''
        ([(''body'', PDict [(''items'', PList [PNum 1, PNum 2])])] :: int event) ''$.body.items'')
   \<and> transform
        \<lparr>to_json_str = (\<lambda>v. if v = PDict [] then Inr ''{}'' else Inr ''?''),
         json_dumps = (\<lambda>v. if v = PList [PNum 1, PNum 2] then Inr ''[1, 2]''
                            else if v = PBool True then Inr ''true'' else Inr ''?''),
         json_loads = (\<lambda>s. if s = ''{'' @ [CHR 0x22] @ ''val'' @ [CHR 0x22] @ '': 7}''
                            then Parsed (PDict [(''val'', PNum (7::int))])
                            else RaisesJSONDecodeError ''Expecting value''),
         str_of_number = (\<lambda>n. if n = 7 then Inr ''7'' else Inr ''?'')\<rparr>
        \<lparr>input_template = '' <$.body.items> '',
         tr_pipe_arn = ''arn:aws:pipes:us-east-1:000000000000:pipe/p'', tr_pipe_name = ''p'',
         tr_source_arn = ''src'', tr_target_arn = ''dst''\<rparr> ''t0''
        ([(''body'', PDict [(''items'', PList [PNum 1, PNum 2])])] :: int event)
     = Inr (PList [PNum 1, PNum 2])
   \<and> spec_single_placeholder
        ''<$.o> <$.l> <$.b> <$.s> <$.n> <$.i> <$.missing> <unknown> <aws.pipes.pipe-name>'' = None
   \<and> \<not> startswith
        (py_strip ''<$.o> <$.l> <$.b> <$.s> <$.n> <$.i> <$.missing> <unknown> <aws.pipes.pipe-name>'')
        ''{''
   \<and> transform
        \<lparr>to_json_str = (\<lambda>v. if v = PDict [] then Inr ''{}'' else Inr ''?''),
         json_dumps = (\<lambda>v. if v = PList [PNum 1, PNum 2] then Inr ''[1, 2]''
                            else if v = PBool True then Inr ''true'' else Inr ''?''),
         json_loads = (\<lambda>s. if s = ''{'' @ [CHR 0x22] @ ''val'' @ [CHR 0x22] @ '': 7}''
                            then Parsed (PDict [(''val'', PNum (7::int))])
                            else RaisesJSONDecodeError ''Expecting value''),
         str_of_number = (\<lambda>n. if n = 7 then Inr ''7'' else Inr ''?'')\<rparr>
        \<lparr>input_template =
           ''<$.o> <$.l> <$.b> <$.s> <$.n> <$.i> <$.missing> <unknown> <aws.pipes.pipe-name>'',
         tr_pipe_arn = ''arn:aws:pipes:us-east-1:000000000000:pipe/p'', tr_pipe_name = ''p'',
         tr_source_arn = ''src'', tr_target_arn = ''dst''\<rparr> ''t0''
        [(''o'', PDict []), (''l'', PList [PNum 1, PNum 2]), (''b'', PBool True),
         (''s'', PStr ''txt''), (''n'', PNone), (''i'', PNum 7)]
     = Inr (PStr ''{} [1, 2] true txt None 7   p'')
   \<and> spec_single_placeholder (''{'' @ [CHR 0x22] @ ''val'' @ [CHR 0x22] @ '': <$.i>}'') = None
   \<and> startswith (py_strip (''{'' @ [CHR 0x22] @ ''val'' @ [CHR 0x22] @ '': <$.i>}'')) ''{''
   \<and> transform
        \<lparr>to_json_str = (\<lambda>v. if v = PDict [] then Inr ''{}'' else Inr ''?''),
         json_dumps = (\<lambda>v. if v = PList [PNum 1, PNum 2] then Inr ''[1, 2]''
                            else if v = PBool True then Inr ''true'' else Inr ''?''),
         json_loads = (\<lambda>s. if s = ''{'' @ [CHR 0x22] @ ''val'' @ [CHR 0x22] @ '': 7}''
                            then Parsed (PDict [(''val'', PNum (7::int))])
                            else RaisesJSONDecodeError ''Expecting value''),
         str_of_number = (\<lambda>n. if n = 7 then Inr ''7'' else Inr ''?'')\<rparr>
        \<lparr>input_template = (''{'' @ [CHR 0x22] @ ''val'' @ [CHR 0x22] @ '': <$.i>}''),
         tr_pipe_arn = ''arn:aws:pipes:us-east-1:000000000000:pipe/p'', tr_pipe_name = ''p'',
         tr_source_arn = ''src'', tr_target_arn = ''dst''\<rparr> ''t0''
        [(''o'', PDict []), (''l'', PList [PNum 1, PNum 2]), (''b'', PBool True),
         (''s'', PStr ''txt''), (''n'', PNone), (''i'', PNum 7)]
     = Inr (PDict [(''val'', PNum 7)])
   \<and> spec_single_placeholder ''{<$.s>'' = None
   \<and> startswith (py_strip ''{<$.s>'') ''{''
   \<and> transform
        \<lparr>to_json_str = (\<lambda>v. if v = PDict [] then Inr ''{}'' else Inr ''?''),
         json_dumps = (\<lambda>v. if v = PList [PNum 1, PNum 2] then Inr ''[1, 2]''
                            else if v = PBool True then Inr ''true'' else Inr ''?''),
         json_loads = (\<lambda>s. if s = ''{'' @ [CHR 0x22] @ ''val'' @ [CHR 0x22] @ '': 7}''
                            then Parsed (PDict [(''val'', PNum (7::int))])
                            else RaisesJSONDecodeError ''Expecting value''),
         str_of_number = (\<lambda>n. if n = 7 then Inr ''7'' else Inr ''?'')\<rparr>
        \<lparr>input_template = ''{<$.s>'',
         tr_pipe_arn = ''arn:aws:pipes:us-east-1:000000000000:pipe/p'', tr_pipe_name = ''p'',
         tr_source_arn = ''src'', tr_target_arn = ''dst''\<rparr> ''t0''
        [(''o'', PDict []), (''l'', PList [PNum 1, PNum 2]), (''b'', PBool True),
         (''s'', PStr ''txt''), (''n'', PNone), (''i'', PNum 7)]
     = Inr (PStr ''{txt'')"
proof -
  let ?lib = "\<lparr>to_json_str = (\<lambda>v. if v = PDict [] then Inr ''{}'' else Inr ''?''),
         json_dumps = (\<lambda>v. if v = PList [PNum 1, PNum 2] then Inr ''[1, 2]''
                            else if v = PBool True then Inr ''true'' else Inr ''?''),
         json_loads = (\<lambda>s. if s = ''{'' @ [CHR 0x22] @ ''val'' @ [CHR 0x22] @ '': 7}''
                            then Parsed (PDict [(''val'', PNum (7::int))])
                            else RaisesJSONDecodeError ''Expecting value''),
         str_of_number = (\<lambda>n. if n = 7 then Inr ''7'' else Inr ''?'')\<rparr>"
  let ?t1 = "'' <$.body.items> ''"
  let ?t2 = "''<$.o> <$.l> <$.b> <$.s> <$.n> <$.i> <$.missing> <unknown> <aws.pipes.pipe-name>''"
  let ?t3 = "''{'' @ [CHR 0x22] @ ''val'' @ [CHR 0x22] @ '': <$.i>}''"
  let ?t4 = "''{<$.s>''"
  let ?s1 = "\<lparr>input_template = ?t1,
         tr_pipe_arn = ''arn:aws:pipes:us-east-1:000000000000:pipe/p'', tr_pipe_name = ''p'',
         tr_source_arn = ''src'', tr_target_arn = ''dst''\<rparr>"
  let ?s2 = "\<lparr>input_template = ?t2,
         tr_pipe_arn = ''arn:aws:pipes:us-east-1:000000000000:pipe/p'', tr_pipe_name = ''p'',
         tr_source_arn = ''src'', tr_target_arn = ''dst''\<rparr>"
  let ?s3 = "\<lparr>input_template = ?t3,
         tr_pipe_arn = ''arn:aws:pipes:us-east-1:000000000000:pipe/p'', tr_pipe_name = ''p'',
         tr_source_arn = ''src'', tr_target_arn = ''dst''\<rparr>"
  let ?s4 = "\<lparr>input_template = ?t4,
         tr_pipe_arn = ''arn:aws:pipes:us-east-1:000000000000:pipe/p'', tr_pipe_name = ''p'',
         tr_source_arn = ''src'', tr_target_arn = ''dst''\<rparr>"
  let ?e1 = "[(''body'', PDict [(''items'', PList [PNum 1, PNum 2])])] :: int event"
  let ?e2 = "[(''o'', PDict []), (''l'', PList [PNum 1, PNum 2]), (''b'', PBool True),
         (''s'', PStr ''txt''), (''n'', PNone), (''i'', PNum 7)] :: int event"
  have a1: "spec_single_placeholder ?t1 = Some ''$.body.items''"
    by (simp add: spec_single_placeholder_def py_strip_def is_space_def)
  have r1: "spec_replacement ?s1 ''t0'' ?e1 ''$.body.items'' = PList [PNum 1, PNum 2]"
    by (simp add: spec_replacement_def spec_table_def startswith_def spec_path_value_def)
  have a2: "spec_is_structured (spec_replacement ?s1 ''t0'' ?e1 ''$.body.items'')"
    unfolding r1 by (simp add: spec_is_structured_def)
  have a1s: "spec_single_placeholder (input_template ?s1) = Some ''$.body.items''"
    using a1 by simp
  from transform_result_typing[of ?s1 "''t0''" ?e1 ?lib, THEN conjunct1, rule_format,
         OF conjI[OF a1s a2]]
  have a3: "transform ?lib ?s1 ''t0'' ?e1 = Inr (PList [PNum 1, PNum 2])"
    unfolding r1 .
  have b1: "spec_single_placeholder ?t2 = None"
    by (simp add: spec_single_placeholder_def py_strip_def is_space_def)
  have b2: "\<not> startswith (py_strip ?t2) ''{''"
    by (simp add: py_strip_def is_space_def startswith_def)
  have b0: "\<not> (\<exists>key. spec_single_placeholder (input_template ?s2) = Some key
              \<and> spec_is_structured (spec_replacement ?s2 ''t0'' ?e2 key))"
    using b1 by simp
  have bs: "spec_substituted ?lib ?s2 ''t0'' ?e2 = Inr ''{} [1, 2] true txt None 7   p''"
    by (simp add: spec_substituted_def spec_pieces_def spec_value_text_def spec_replacement_def
          spec_table_def startswith_def spec_path_value_def)
  have b2s: "\<not> startswith (py_strip (input_template ?s2)) ''{''" using b2 by simp
  from transform_result_typing[of ?s2 "''t0''" ?e2 ?lib, THEN conjunct2, THEN conjunct1,
         rule_format, OF b0, THEN conjunct2, rule_format, OF bs, THEN conjunct1, rule_format,
         OF b2s]
  have b3: "transform ?lib ?s2 ''t0'' ?e2 = Inr (PStr ''{} [1, 2] true txt None 7   p'')" .
  have c1: "spec_single_placeholder ?t3 = None"
    by (simp add: spec_single_placeholder_def py_strip_def is_space_def)
  have c2: "startswith (py_strip ?t3) ''{''"
    by (simp add: py_strip_def is_space_def startswith_def)
  have c0: "\<not> (\<exists>key. spec_single_placeholder (input_template ?s3) = Some key
              \<and> spec_is_structured (spec_replacement ?s3 ''t0'' ?e2 key))"
    using c1 by simp
  have cs: "spec_substituted ?lib ?s3 ''t0'' ?e2
              = Inr (''{'' @ [CHR 0x22] @ ''val'' @ [CHR 0x22] @ '': 7}'')"
    by (simp add: spec_substituted_def spec_pieces_def spec_value_text_def spec_replacement_def
          spec_table_def startswith_def spec_path_value_def)
  have c2s: "startswith (py_strip (input_template ?s3)) ''{''" using c2 by simp
  have cl: "json_loads ?lib (''{'' @ [CHR 0x22] @ ''val'' @ [CHR 0x22] @ '': 7}'')
              = Parsed (PDict [(''val'', PNum 7)])" by simp
  from transform_result_typing[of ?s3 "''t0''" ?e2 ?lib, THEN conjunct2, THEN conjunct1,
         rule_format, OF c0, THEN conjunct2, rule_format, OF cs, THEN conjunct2, rule_format,
         OF c2s, THEN conjunct1, rule_format, OF cl]
  have c3: "transform ?lib ?s3 ''t0'' ?e2 = Inr (PDict [(''val'', PNum 7)])" .
  have d1: "spec_single_placeholder ?t4 = None"
    by (simp add: spec_single_placeholder_def py_strip_def is_space_def)
  have d2: "startswith (py_strip ?t4) ''{''"
    by (simp add: py_strip_def is_space_def startswith_def)
  have d0: "\<not> (\<exists>key. spec_single_placeholder (input_template ?s4) = Some key
              \<and> spec_is_structured (spec_replacement ?s4 ''t0'' ?e2 key))"
    using d1 by simp
  have ds: "spec_substituted ?lib ?s4 ''t0'' ?e2 = Inr ''{txt''"
    by (simp add: spec_substituted_def spec_pieces_def spec_value_text_def spec_replacement_def
          spec_table_def startswith_def spec_path_value_def)
  have d2s: "startswith (py_strip (input_template ?s4)) ''{''" using d2 by simp
  have dl: "json_loads ?lib ''{txt'' = RaisesJSONDecodeError ''Expecting value''" by simp
  from transform_result_typing[of ?s4 "''t0''" ?e2 ?lib, THEN conjunct2, THEN conjunct1,
         rule_format, OF d0, THEN conjunct2, rule_format, OF ds, THEN conjunct2, rule_format,
         OF d2s, THEN conjunct2, THEN conjunct1, rule_format, OF dl]
  have d3: "transform ?lib ?s4 ''t0'' ?e2 = Inr (PStr ''{txt'')" .
  show ?thesis
    by (rule conjI[OF a1 conjI[OF a2 conjI[OF a3 conjI[OF b1 conjI[OF b2 conjI[OF b3
          conjI[OF c1 conjI[OF c2 conjI[OF c3 conjI[OF d1 conjI[OF d2 d3]]]]]]]]]]])
qed

end
